theory Spec2Isabelle
  imports Complex_Main "HOL-Library.Char_ord" "HOL-Library.List_Lexorder"
begin

section \<open>Data model (config.py, slideshow.py)\<close>

text \<open>
  A shallow embedding of \<^verbatim>\<open>src/panzoom/slideshow.py\<close> and of the dataclasses of
  \<^verbatim>\<open>src/panzoom/config.py\<close> it uses.

  Conventions of the embedding:
  \<^item> Python \<^verbatim>\<open>float\<close> values (durations, intensities, progress figures) are exact
    reals: rounding, overflow to infinity and NaN are not modelled. Python \<^verbatim>\<open>int\<close>
    is \<open>int\<close> (or \<open>nat\<close> for a position in a list).
  \<^item> Python \<^verbatim>\<open>str\<close> is \<open>string\<close>: a list of 8-bit characters, read as the code
    points below 256. Text with code points above 255 is outside the model.
  \<^item> A dataclass is a record. Where two dataclasses share a field name, the fields of
    the later ones carry a prefix (\<open>title_\<close>, \<open>wm_\<close>, \<open>img_\<close>, \<open>info_\<close>).
  \<^item> \<^verbatim>\<open>self\<close> is the record \<open>SlideshowGenerator\<close>, passed in and returned updated.
\<close>

record VideoConfig =
  duration :: real
  crossfade :: real
  fps :: int
  width :: int
  height :: int
  zoom_intensity :: real
  pan_intensity :: real
  zoom_direction :: string
  pan_direction :: string
  vertical_position :: real
  transition :: string
  shuffle :: bool
  reverse :: bool
  crf :: int
  preset :: string
  audio_bitrate :: string

record WatermarkConfig =
  wm_enabled :: bool
  wm_image_path :: string
  wm_position :: string
  wm_opacity :: real
  wm_scale :: real
  wm_margin :: int

record TitleConfig =
  title_enabled :: bool
  title_text :: string
  title_subtitle :: string
  title_duration :: real
  title_font_size :: int
  title_subtitle_size :: int
  title_font_color :: string
  title_background_color :: string
  title_fade_in :: real
  title_fade_out :: real

record ImageInfo =
  path :: string
  index :: nat
  zoom_in :: bool
  pan_left_to_right :: bool
  img_transition :: string

record ProgressInfo =
  frame :: int
  info_fps :: real
  time_encoded :: real
  speed :: real
  percent :: real
  eta_seconds :: real

record SlideshowGenerator =
  config :: VideoConfig
  watermark :: "WatermarkConfig option"
  title :: "TitleConfig option"
  images :: "ImageInfo list"
  progress_info :: ProgressInfo
  stop_flag :: bool

text \<open>The exceptions of Python the modelled code can raise.\<close>

datatype py_error = ValueError | ZeroDivisionError | OtherException string

text \<open>The defaults of the dataclasses, as config.py declares them.\<close>

definition default_video :: VideoConfig where
  "default_video =
     \<lparr>duration = 10, crossfade = 2, fps = 60, width = 1920, height = 1080,
      zoom_intensity = 8 / 100, pan_intensity = 25 / 100,
      zoom_direction = ''alternate'', pan_direction = ''alternate'',
      vertical_position = 3 / 10, transition = ''fade'',
      shuffle = False, reverse = False,
      crf = 18, preset = ''slow'', audio_bitrate = ''320k''\<rparr>"

definition default_progress :: ProgressInfo where
  "default_progress =
     \<lparr>frame = 0, info_fps = 0, time_encoded = 0, speed = 0, percent = 0,
      eta_seconds = 0\<rparr>"

text \<open>\<^verbatim>\<open>SlideshowGenerator.__init__\<close>.\<close>

definition init :: "VideoConfig \<Rightarrow> WatermarkConfig option \<Rightarrow> TitleConfig option \<Rightarrow> SlideshowGenerator" where
  "init cfg wm t =
     \<lparr>config = cfg, watermark = wm, title = t, images = [],
      progress_info = default_progress, stop_flag = False\<rparr>"

section \<open>Text helpers\<close>

text \<open>
  The character classes of Python's \<^verbatim>\<open>re\<close> on \<^verbatim>\<open>str\<close> patterns, for code points
  below 256: \<^verbatim>\<open>\d\<close> is the ten ASCII digits, \<^verbatim>\<open>\s\<close> is the white space of
  \<^verbatim>\<open>str.isspace\<close> (code points 9 to 13, 28 to 32, 133 and 160), \<^verbatim>\<open>[\d.]\<close> is a
  digit or a full stop.
\<close>

definition is_digit :: "char \<Rightarrow> bool" where
  "is_digit c = (c \<in> set ''0123456789'')"

definition is_space :: "char \<Rightarrow> bool" where
  "is_space c = ((of_char c :: nat) \<in> {9, 10, 11, 12, 13, 28, 29, 30, 31, 32, 133, 160})"

definition is_digit_or_dot :: "char \<Rightarrow> bool" where
  "is_digit_or_dot c = (is_digit c \<or> c = CHR ''.'')"

text \<open>
  \<^verbatim>\<open>int(s)\<close> for a text of digits, and \<^verbatim>\<open>float(s)\<close> for a text of digits and full
  stops (the only texts the patterns below capture): \<^verbatim>\<open>float\<close> accepts
  \<^verbatim>\<open>12\<close>, \<^verbatim>\<open>12.\<close>, \<^verbatim>\<open>12.5\<close> and \<^verbatim>\<open>.5\<close>, and raises \<^verbatim>\<open>ValueError\<close>
  (here \<open>None\<close>) on \<^verbatim>\<open>.\<close> and on a text with two full stops. The value is exact;
  Python's limit on the number of digits of an \<^verbatim>\<open>int\<close> literal is not modelled.
\<close>

definition digit_val :: "char \<Rightarrow> nat" where
  "digit_val c = of_char c - 48"

definition nat_of_digits :: "string \<Rightarrow> nat" where
  "nat_of_digits ds = foldl (\<lambda>a c. 10 * a + digit_val c) 0 ds"

definition float_of :: "string \<Rightarrow> real option" where
  "float_of s =
     (let ip = takeWhile is_digit s; rest = dropWhile is_digit s in
      case rest of
        [] \<Rightarrow> if ip = [] then None else Some (real (nat_of_digits ip))
      | c # fp \<Rightarrow>
          if c = CHR ''.'' \<and> list_all is_digit fp \<and> (ip \<noteq> [] \<or> fp \<noteq> [])
          then Some (real (nat_of_digits ip) + real (nat_of_digits fp) / 10 ^ length fp)
          else None)"

text \<open>
  \<^verbatim>\<open>re.search(pattern, line)\<close> tries the pattern at every position of the line from
  left to right and returns the first match. \<open>re_search m line\<close> does so for a
  matcher \<open>m\<close> of the text at one position. Each of the four patterns of
  \<^verbatim>\<open>_parse_ffmpeg_progress\<close> is a literal followed by runs of disjoint character
  classes, so at one position the greedy match is the only one: backtracking into a
  shorter run leaves a character of the run's own class where the pattern wants another.
\<close>

definition strip_prefix :: "string \<Rightarrow> string \<Rightarrow> string option" where
  "strip_prefix p s = (if take (length p) s = p then Some (drop (length p) s) else None)"

fun re_search :: "(string \<Rightarrow> 'a option) \<Rightarrow> string \<Rightarrow> 'a option" where
  "re_search m [] = m []"
| "re_search m (c # cs) = (case m (c # cs) of Some r \<Rightarrow> Some r | None \<Rightarrow> re_search m cs)"

text \<open>\<^verbatim>\<open>frame=\s*(\d+)\<close>, \<^verbatim>\<open>fps=\s*([\d.]+)\<close>: the captured group.\<close>

definition match_frame :: "string \<Rightarrow> string option" where
  "match_frame s =
     (case strip_prefix ''frame='' s of
        None \<Rightarrow> None
      | Some r \<Rightarrow>
          let ds = takeWhile is_digit (dropWhile is_space r)
          in if ds = [] then None else Some ds)"

definition match_fps :: "string \<Rightarrow> string option" where
  "match_fps s =
     (case strip_prefix ''fps='' s of
        None \<Rightarrow> None
      | Some r \<Rightarrow>
          let g = takeWhile is_digit_or_dot (dropWhile is_space r)
          in if g = [] then None else Some g)"

text \<open>
  \<^verbatim>\<open>time=\s*(\d+):(\d+):(\d+\.?\d*)\<close>: the three captured groups.
  \<open>match_digits_colon\<close> is \<^verbatim>\<open>(\d+):\<close> (the group and the text after the colon),
  \<open>match_seconds\<close> is \<^verbatim>\<open>(\d+\.?\d*)\<close>.
\<close>

definition match_seconds :: "string \<Rightarrow> string option" where
  "match_seconds r =
     (let s1 = takeWhile is_digit r in
      if s1 = [] then None
      else case dropWhile is_digit r of
             [] \<Rightarrow> Some s1
           | c # r' \<Rightarrow>
               if c = CHR ''.'' then Some (s1 @ [c] @ takeWhile is_digit r')
               else Some s1)"

definition match_digits_colon :: "string \<Rightarrow> (string \<times> string) option" where
  "match_digits_colon r =
     (let ds = takeWhile is_digit r in
      if ds = [] then None
      else case dropWhile is_digit r of
             [] \<Rightarrow> None
           | c # r' \<Rightarrow> if c = CHR '':'' then Some (ds, r') else None)"

definition match_time :: "string \<Rightarrow> (string \<times> string \<times> string) option" where
  "match_time s =
     (case strip_prefix ''time='' s of
        None \<Rightarrow> None
      | Some r \<Rightarrow>
          (case match_digits_colon (dropWhile is_space r) of
             None \<Rightarrow> None
           | Some (h, r1) \<Rightarrow>
               (case match_digits_colon r1 of
                  None \<Rightarrow> None
                | Some (m, r2) \<Rightarrow>
                    (case match_seconds r2 of
                       None \<Rightarrow> None
                     | Some sec \<Rightarrow> Some (h, m, sec)))))"

text \<open>\<^verbatim>\<open>speed=\s*([\d.]+)x\<close>: the captured group.\<close>

definition match_speed :: "string \<Rightarrow> string option" where
  "match_speed s =
     (case strip_prefix ''speed='' s of
        None \<Rightarrow> None
      | Some r \<Rightarrow>
          let r1 = dropWhile is_space r; g = takeWhile is_digit_or_dot r1
          in if g = [] then None
             else case dropWhile is_digit_or_dot r1 of
                    [] \<Rightarrow> None
                  | c # _ \<Rightarrow> if c = CHR ''x'' then Some g else None)"

section \<open>_parse_ffmpeg_progress\<close>

text \<open>
  \<^verbatim>\<open>
  def _parse_ffmpeg_progress(self, line, total_duration):
      info = self._progress_info
      match = re.search(r'frame=\s*(\d+)', line)
      if match:
          info.frame = int(match.group(1))
      match = re.search(r'fps=\s*([\d.]+)', line)
      if match:
          info.fps = float(match.group(1))
      match = re.search(r'time=\s*(\d+):(\d+):(\d+\.?\d*)', line)
      if match:
          h, m, s = match.groups()
          info.time_encoded = int(h) * 3600 + int(m) * 60 + float(s)
          if total_duration > 0:
              info.percent = min(100, (info.time_encoded / total_duration) * 100)
              if info.fps > 0:
                  remaining = total_duration - info.time_encoded
                  info.eta_seconds = remaining / (info.fps / self.config.fps) if info.fps > 0 else 0
      match = re.search(r'speed=\s*([\d.]+)x', line)
      if match:
          info.speed = float(match.group(1))
      return info
  \<close>
  The function updates the snapshot \<^verbatim>\<open>self._progress_info\<close> in place, one field after
  the other, so an exception leaves the fields written before it. The model returns
  the exception, if any, and the snapshot as the call leaves it: \<open>(None, info')\<close> when
  the call returns \<open>info'\<close>, \<open>(Some e, info')\<close> when it raises \<open>e\<close>. The exceptions are
  the \<^verbatim>\<open>ValueError\<close> of \<^verbatim>\<open>float\<close> and the \<^verbatim>\<open>ZeroDivisionError\<close> of
  \<^verbatim>\<open>info.fps / self.config.fps\<close>; \<open>cfg_fps\<close> is \<^verbatim>\<open>self.config.fps\<close>.
\<close>

definition set_frame :: "string \<Rightarrow> ProgressInfo \<Rightarrow> ProgressInfo" where
  "set_frame line info =
     (case re_search match_frame line of
        None \<Rightarrow> info
      | Some ds \<Rightarrow> info\<lparr>frame := int (nat_of_digits ds)\<rparr>)"

definition set_fps :: "string \<Rightarrow> ProgressInfo \<Rightarrow> py_error + ProgressInfo" where
  "set_fps line info =
     (case re_search match_fps line of
        None \<Rightarrow> Inr info
      | Some g \<Rightarrow>
          (case float_of g of
             None \<Rightarrow> Inl ValueError
           | Some v \<Rightarrow> Inr (info\<lparr>info_fps := v\<rparr>)))"

definition set_time :: "string \<Rightarrow> real \<Rightarrow> int \<Rightarrow> ProgressInfo \<Rightarrow> py_error option \<times> ProgressInfo" where
  "set_time line total_duration cfg_fps info =
     (case re_search match_time line of
        None \<Rightarrow> (None, info)
      | Some (h, m, s) \<Rightarrow>
          (case float_of s of
             None \<Rightarrow> (Some ValueError, info)
           | Some sv \<Rightarrow>
               let info1 = info\<lparr>time_encoded :=
                             real (nat_of_digits h) * 3600 + real (nat_of_digits m) * 60 + sv\<rparr>
               in if total_duration > 0 then
                    let info2 = info1\<lparr>percent := min 100 (time_encoded info1 / total_duration * 100)\<rparr>
                    in if info_fps info2 > 0 then
                         (if cfg_fps = 0 then (Some ZeroDivisionError, info2)
                          else (None, info2\<lparr>eta_seconds :=
                                  (total_duration - time_encoded info2)
                                    / (info_fps info2 / real_of_int cfg_fps)\<rparr>))
                       else (None, info2)
                  else (None, info1)))"

definition set_speed :: "string \<Rightarrow> ProgressInfo \<Rightarrow> py_error + ProgressInfo" where
  "set_speed line info =
     (case re_search match_speed line of
        None \<Rightarrow> Inr info
      | Some g \<Rightarrow>
          (case float_of g of
             None \<Rightarrow> Inl ValueError
           | Some v \<Rightarrow> Inr (info\<lparr>speed := v\<rparr>)))"

definition parse_ffmpeg_progress :: "string \<Rightarrow> real \<Rightarrow> int \<Rightarrow> ProgressInfo \<Rightarrow> py_error option \<times> ProgressInfo" where
  "parse_ffmpeg_progress line total_duration cfg_fps info =
     (let info1 = set_frame line info in
      case set_fps line info1 of
        Inl e \<Rightarrow> (Some e, info1)
      | Inr info2 \<Rightarrow>
          (case set_time line total_duration cfg_fps info2 of
             (Some e, info3) \<Rightarrow> (Some e, info3)
           | (None, info3) \<Rightarrow>
               (case set_speed line info3 of
                  Inl e \<Rightarrow> (Some e, info3)
                | Inr info4 \<Rightarrow> (None, info4))))"


section \<open>estimate_duration\<close>

text \<open>
  \<^verbatim>\<open>
  def estimate_duration(self) -> float:
      if not self.images:
          return 0
      n = len(self.images)
      total = self.config.duration * n - self.config.crossfade * (n - 1)
      if self.title and self.title.enabled:
          total += self.title.duration
      return max(0, total)
  \<close>
  \<^verbatim>\<open>self.title\<close> is \<^verbatim>\<open>None\<close> or a \<^verbatim>\<open>TitleConfig\<close>; a dataclass instance is truthy.
\<close>

definition title_active :: "TitleConfig option \<Rightarrow> bool" where
  "title_active t = (case t of None \<Rightarrow> False | Some tc \<Rightarrow> title_enabled tc)"

definition estimate_duration :: "SlideshowGenerator \<Rightarrow> real" where
  "estimate_duration self =
     (if images self = [] then 0
      else
        let n = length (images self);
            total = duration (config self) * real n
                      - crossfade (config self) * (real n - 1);
            total = (if title_active (title self)
                     then total + title_duration (the (title self)) else total)
        in max 0 total)"

section \<open>find_images\<close>

text \<open>
  The file system the code reads, as a map from a path to what is there: a
  regular file with its size in bytes, a directory with the names of its entries, or
  something else (a device, a socket). Paths are texts in the normal form
  \<^verbatim>\<open>str(Path(p))\<close> prints (no trailing or doubled slash); symbolic links are
  followed, as \<^verbatim>\<open>Path.exists\<close>, \<^verbatim>\<open>is_file\<close> and \<^verbatim>\<open>is_dir\<close> do.
\<close>

datatype fs_node = File nat | Dir "string list" | Special

type_synonym filesystem = "string \<Rightarrow> fs_node option"

definition path_exists :: "filesystem \<Rightarrow> string \<Rightarrow> bool" where
  "path_exists fs p = (fs p \<noteq> None)"

definition is_file :: "filesystem \<Rightarrow> string \<Rightarrow> bool" where
  "is_file fs p = (case fs p of Some (File _) \<Rightarrow> True | _ \<Rightarrow> False)"

definition is_dir :: "filesystem \<Rightarrow> string \<Rightarrow> bool" where
  "is_dir fs p = (case fs p of Some (Dir _) \<Rightarrow> True | _ \<Rightarrow> False)"

definition listdir :: "filesystem \<Rightarrow> string \<Rightarrow> string list" where
  "listdir fs p = (case fs p of Some (Dir names) \<Rightarrow> names | _ \<Rightarrow> [])"

text \<open>
  \<^verbatim>\<open>str.lower()\<close> for code points below 256: the ASCII capitals and the capitals of
  Latin-1 (192 to 222 but the multiplication sign 215) move up by 32.
  \<^verbatim>\<open>str.upper()\<close> is modelled for ASCII text only: the code applies it to the
  constants of \<^verbatim>\<open>SUPPORTED_FORMATS\<close>.
\<close>

definition lower_char :: "char \<Rightarrow> char" where
  "lower_char c =
     (let n = (of_char c :: nat)
      in if (65 \<le> n \<and> n \<le> 90) \<or> (192 \<le> n \<and> n \<le> 222 \<and> n \<noteq> 215)
         then char_of (n + 32) else c)"

definition lower :: "string \<Rightarrow> string" where
  "lower s = map lower_char s"

definition upper_char :: "char \<Rightarrow> char" where
  "upper_char c =
     (let n = (of_char c :: nat)
      in if 97 \<le> n \<and> n \<le> 122 then char_of (n - 32) else c)"

definition upper :: "string \<Rightarrow> string" where
  "upper s = map upper_char s"

text \<open>
  \<^verbatim>\<open>Path(p).name\<close> is the text after the last slash; \<^verbatim>\<open>Path(p).suffix\<close> is the
  name from its last full stop on, unless that full stop is the first or the last
  character of the name or the name has none (then the suffix is empty).
\<close>

definition path_name :: "string \<Rightarrow> string" where
  "path_name p = rev (takeWhile (\<lambda>c. c \<noteq> CHR ''/'') (rev p))"

definition path_suffix :: "string \<Rightarrow> string" where
  "path_suffix p =
     (let name = path_name p;
          ext = rev (takeWhile (\<lambda>c. c \<noteq> CHR ''.'') (rev name))
      in if CHR ''.'' \<in> set name \<and> length ext + 1 < length name \<and> ext \<noteq> []
         then CHR ''.'' # ext else [])"

text \<open>
  \<^verbatim>\<open>path.glob('*' + ext)\<close> on a POSIX path: the entries of the directory whose name
  ends with \<open>ext\<close>, compared case-sensitively, each as the directory's path joined
  with the name.
\<close>

definition ends_with :: "string \<Rightarrow> string \<Rightarrow> bool" where
  "ends_with ext name =
     (length ext \<le> length name \<and> drop (length name - length ext) name = ext)"

definition join_path :: "string \<Rightarrow> string \<Rightarrow> string" where
  "join_path d name =
     (if d = ''.'' then name
      else if d \<noteq> [] \<and> last d = CHR ''/'' then d @ name
      else d @ ''/'' @ name)"

definition glob_star :: "filesystem \<Rightarrow> string \<Rightarrow> string \<Rightarrow> string list" where
  "glob_star fs d ext = map (join_path d) (filter (ends_with ext) (listdir fs d))"

definition SUPPORTED_FORMATS :: "string list" where
  "SUPPORTED_FORMATS = [''.png'', ''.jpg'', ''.jpeg'', ''.webp'', ''.bmp'', ''.tiff'']"

definition SUPPORTED_AUDIO :: "string list" where
  "SUPPORTED_AUDIO = [''.wav'', ''.mp3'', ''.aac'', ''.flac'', ''.ogg'', ''.m4a'']"

text \<open>
  \<^verbatim>\<open>
  def find_images(self, path: str) -> List[str]:
      images = []
      path = Path(path)
      if path.is_file():
          if path.suffix.lower() in self.SUPPORTED_FORMATS:
              images.append(str(path))
      elif path.is_dir():
          for ext in self.SUPPORTED_FORMATS:
              images.extend([str(p) for p in path.glob(f'*{ext}')])
              images.extend([str(p) for p in path.glob(f'*{ext.upper()}')])
      return sorted(set(images))
  \<close>
  \<^verbatim>\<open>SUPPORTED_FORMATS\<close> is a Python set; the order in which the loop visits it does
  not reach the result, which is sorted. \<^verbatim>\<open>sorted(set(images))\<close> orders the distinct
  texts by code points, character by character: the lexicographic order of \<open>string\<close>.
\<close>

definition find_images :: "filesystem \<Rightarrow> string \<Rightarrow> string list" where
  "find_images fs p =
     (let images =
            (if is_file fs p then
               (if lower (path_suffix p) \<in> set SUPPORTED_FORMATS then [p] else [])
             else if is_dir fs p then
               concat (map (\<lambda>ext. glob_star fs p ext @ glob_star fs p (upper ext))
                         SUPPORTED_FORMATS)
             else [])
      in sort (remdups images))"

section \<open>prepare_images\<close>

text \<open>
  The source of randomness is explicit: a list of draws, used from the left.
  \<open>randbelow n\<close> is the next draw reduced below \<open>n\<close> (0 when the draws are used up),
  \<open>choice\<close> is \<^verbatim>\<open>random.choice\<close> on a non-empty list, and \<open>random_shuffle\<close> is
  \<^verbatim>\<open>random.shuffle\<close>, the exchange loop of CPython:
  \<^verbatim>\<open>
  for i in reversed(range(1, len(x))):
      j = randbelow(i + 1)
      x[i], x[j] = x[j], x[i]
  \<close>
\<close>

type_synonym rng = "nat list"

definition randbelow :: "nat \<Rightarrow> rng \<Rightarrow> nat \<times> rng" where
  "randbelow n draws = (case draws of [] \<Rightarrow> (0, []) | r # rs \<Rightarrow> (r mod n, rs))"

definition choice :: "'a list \<Rightarrow> rng \<Rightarrow> 'a \<times> rng" where
  "choice xs draws = (case randbelow (length xs) draws of (i, rest) \<Rightarrow> (xs ! i, rest))"

fun shuffle_loop :: "nat \<Rightarrow> 'a list \<Rightarrow> rng \<Rightarrow> 'a list \<times> rng" where
  "shuffle_loop 0 xs draws = (xs, draws)"
| "shuffle_loop (Suc k) xs draws =
     (case randbelow (Suc k + 1) draws of
        (j, rest) \<Rightarrow> shuffle_loop k (xs[Suc k := xs ! j, j := xs ! Suc k]) rest)"

definition random_shuffle :: "'a list \<Rightarrow> rng \<Rightarrow> 'a list \<times> rng" where
  "random_shuffle xs draws = shuffle_loop (length xs - 1) xs draws"

text \<open>\<^verbatim>\<open>list(TRANSITIONS.keys())\<close>: the keys of the dictionary of config.py, in its order.\<close>

definition transition_list :: "string list" where
  "transition_list =
     [''fade'', ''fadeblack'', ''fadewhite'', ''wipeleft'', ''wiperight'', ''wipeup'',
      ''wipedown'', ''slideleft'', ''slideright'', ''slideup'', ''slidedown'',
      ''smoothleft'', ''smoothright'', ''circlecrop'', ''circleclose'', ''circleopen'',
      ''dissolve'', ''pixelize'', ''radial'', ''hblur'', ''hlslice'', ''vlslice'',
      ''zoomin'', ''squeezeh'', ''squeezev'']"

text \<open>
  \<^verbatim>\<open>
  def prepare_images(self, image_paths: List[str]) -> List[ImageInfo]:
      if not image_paths:
          raise ValueError("No images found")
      if self.config.shuffle:
          random.shuffle(image_paths)
      elif self.config.reverse:
          image_paths = list(reversed(image_paths))
      transition_list = list(TRANSITIONS.keys())
      images = []
      for i, path in enumerate(image_paths):
          if self.config.zoom_direction == "in":
              zoom_in = True
          elif self.config.zoom_direction == "out":
              zoom_in = False
          elif self.config.zoom_direction == "random":
              zoom_in = random.choice([True, False])
          else:  # alternate
              zoom_in = (i % 2 == 0)
          if self.config.pan_direction == "left":
              pan_lr = True
          elif self.config.pan_direction == "right":
              pan_lr = False
          elif self.config.pan_direction == "random":
              pan_lr = random.choice([True, False])
          else:  # alternate
              pan_lr = (i % 2 == 0)
          if self.config.transition == "random":
              transition = random.choice(transition_list)
          else:
              transition = self.config.transition
          images.append(ImageInfo(path=path, index=i, zoom_in=zoom_in,
                                  pan_left_to_right=pan_lr, transition=transition))
      self.images = images
      return images
  \<close>
  \<open>zoom_of\<close>, \<open>pan_of\<close> and \<open>transition_of\<close> are the three choices of one round of the
  loop, \<open>prepare_loop\<close> is the loop from index \<open>i\<close> on, \<open>ordered_paths\<close> is the
  ordering step, and \<open>prepare_images\<close> returns
  the list, the draws left and the generator with \<^verbatim>\<open>self.images\<close> set, or the
  \<^verbatim>\<open>ValueError\<close>.
\<close>

definition zoom_of :: "VideoConfig \<Rightarrow> nat \<Rightarrow> rng \<Rightarrow> bool \<times> rng" where
  "zoom_of cfg i draws =
     (if zoom_direction cfg = ''in'' then (True, draws)
      else if zoom_direction cfg = ''out'' then (False, draws)
      else if zoom_direction cfg = ''random'' then choice [True, False] draws
      else (i mod 2 = 0, draws))"

definition pan_of :: "VideoConfig \<Rightarrow> nat \<Rightarrow> rng \<Rightarrow> bool \<times> rng" where
  "pan_of cfg i draws =
     (if pan_direction cfg = ''left'' then (True, draws)
      else if pan_direction cfg = ''right'' then (False, draws)
      else if pan_direction cfg = ''random'' then choice [True, False] draws
      else (i mod 2 = 0, draws))"

definition transition_of :: "VideoConfig \<Rightarrow> rng \<Rightarrow> string \<times> rng" where
  "transition_of cfg draws =
     (if transition cfg = ''random'' then choice transition_list draws
      else (transition cfg, draws))"

fun prepare_loop :: "VideoConfig \<Rightarrow> nat \<Rightarrow> string list \<Rightarrow> rng \<Rightarrow> ImageInfo list \<times> rng" where
  "prepare_loop cfg i [] draws = ([], draws)"
| "prepare_loop cfg i (p # ps) draws =
     (case zoom_of cfg i draws of (zi, draws1) \<Rightarrow>
      case pan_of cfg i draws1 of (pl, draws2) \<Rightarrow>
      case transition_of cfg draws2 of (tr, draws3) \<Rightarrow>
      case prepare_loop cfg (Suc i) ps draws3 of (rest, draws4) \<Rightarrow>
        (\<lparr>path = p, index = i, zoom_in = zi, pan_left_to_right = pl,
          img_transition = tr\<rparr> # rest, draws4))"

definition ordered_paths :: "string list \<Rightarrow> rng \<Rightarrow> SlideshowGenerator \<Rightarrow> string list \<times> rng" where
  "ordered_paths image_paths draws self =
     (if shuffle (config self) then random_shuffle image_paths draws
      else if reverse (config self) then (rev image_paths, draws)
      else (image_paths, draws))"

definition prepare_images ::
  "string list \<Rightarrow> rng \<Rightarrow> SlideshowGenerator
     \<Rightarrow> py_error + (ImageInfo list \<times> rng \<times> SlideshowGenerator)" where
  "prepare_images image_paths draws self =
     (if image_paths = [] then Inl ValueError
      else
        case ordered_paths image_paths draws self of
          (ordered, draws1) \<Rightarrow>
            (case prepare_loop (config self) 0 ordered draws1 of
               (imgs, draws2) \<Rightarrow> Inr (imgs, draws2, self\<lparr>images := imgs\<rparr>)))"

section \<open>_build_filter_complex\<close>

text \<open>
  The filter graph is a list of clauses, joined with semicolons in the source. A clause
  is kept as the values its f-string prints, not as text: the labels in square
  brackets, the indices and the numbers.
\<close>

datatype label = V nat | X nat | Vout | Wm | Vfinal | Vlast

datatype zoom_expr = ZoomIn real int | ZoomOut real real int

datatype pan_expr = PanLeftToRight real int | PanRightToLeft real int

datatype overlay_pos = TopLeft int | TopRight int | BottomLeft int | BottomRight int | Center

text \<open>
  \<^item> \<open>Stage n sw sh z x y d w h f out\<close>:
    \<^verbatim>\<open>[n:v]scale=sw:sh:force_original_aspect_ratio=increase,zoompan=z='..':x='..':y='(ih-oh)*y':d=d:s=wxh:fps=f,format=yuv420p[out]\<close>
  \<^item> \<open>XFade a b tr dur off out\<close>: \<^verbatim>\<open>[a][b]xfade=transition=tr:duration=dur:offset=off[out]\<close>
  \<^item> \<open>Format a out\<close>: \<^verbatim>\<open>[a]format=yuv420p[out]\<close>
  \<^item> \<open>WatermarkScale n sc op out\<close>: \<^verbatim>\<open>[n:v]scale=iw*sc:-1,format=rgba,colorchannelmixer=aa=op[out]\<close>
  \<^item> \<open>Overlay a b pos out\<close>: \<^verbatim>\<open>[a][b]overlay=pos[out]\<close>
  \<^item> \<open>ZoomIn z k\<close> is \<^verbatim>\<open>(1+z*(on/k))\<close>, \<open>ZoomOut a z k\<close> is \<^verbatim>\<open>(a-z*(on/k))\<close>,
    \<open>PanLeftToRight p k\<close> is \<^verbatim>\<open>(iw-ow)*(p*(on/k))\<close> and \<open>PanRightToLeft p k\<close> is
    \<^verbatim>\<open>(iw-ow)*(p*(1-(on/k)))\<close>.
  \<^item> \<open>V i\<close>, \<open>X i\<close>, \<open>Vout\<close>, \<open>Wm\<close>, \<open>Vfinal\<close>, \<open>Vlast\<close> are the labels \<^verbatim>\<open>[vi]\<close>,
    \<^verbatim>\<open>[xi]\<close>, \<^verbatim>\<open>[vout]\<close>, \<^verbatim>\<open>[wm]\<close>, \<^verbatim>\<open>[vfinal]\<close> and \<^verbatim>\<open>[v]\<close>.
\<close>

datatype clause =
    Stage nat int int zoom_expr pan_expr real int int int int label
  | XFade label label string real real label
  | Format label label
  | WatermarkScale nat real real label
  | Overlay label label overlay_pos label

text \<open>
  \<^verbatim>\<open>round(x)\<close> of Python rounds to the nearest integer, a tie to the even one.
\<close>

definition py_round :: "real \<Rightarrow> int" where
  "py_round x =
     (let f = \<lfloor>x\<rfloor>; d = x - of_int f
      in if d < 1 / 2 then f else if 1 / 2 < d then f + 1
         else if even f then f else f + 1)"

text \<open>
  \<^verbatim>\<open>filters[-1] = filters[-1].rsplit('[', 1)[0] + '[v]'\<close>: every clause ends with
  its output label in square brackets, and no label holds a bracket, so the text cut
  off after the last \<^verbatim>\<open>[\<close> is that label; the last clause gets the output label
  \<^verbatim>\<open>[v]\<close>. (The list is never empty there: the chain always adds a clause.)
\<close>

fun set_out :: "label \<Rightarrow> clause \<Rightarrow> clause" where
  "set_out l (Stage n sw sh z x y d w h f _) = Stage n sw sh z x y d w h f l"
| "set_out l (XFade a b tr dur off _) = XFade a b tr dur off l"
| "set_out l (Format a _) = Format a l"
| "set_out l (WatermarkScale n sc op _) = WatermarkScale n sc op l"
| "set_out l (Overlay a b pos _) = Overlay a b pos l"

definition relabel_last :: "clause list \<Rightarrow> clause list" where
  "relabel_last filters =
     (if filters = [] then [] else butlast filters @ [set_out Vlast (last filters)])"

text \<open>
  \<^verbatim>\<open>
  def _build_filter_complex(self, with_watermark=False, with_title=False) -> str:
      cfg = self.config
      num_frames = max(2, int(round(cfg.duration * cfg.fps)))
      zoom = cfg.zoom_intensity
      pan = cfg.pan_intensity
      y_pos = cfg.vertical_position
      filters = []
      input_offset = 0
      if with_title and self.title and self.title.enabled:
          input_offset += 1
      for img in self.images:
          i = img.index
          input_idx = i + input_offset
          frac = f"(on/{num_frames - 1})"
          if img.zoom_in:
              z_expr = f"(1+{zoom}*{frac})"
          else:
              z_expr = f"({1 + zoom}-{zoom}*{frac})"
          if img.pan_left_to_right:
              x_expr = f"(iw-ow)*({pan}*{frac})"
          else:
              x_expr = f"(iw-ow)*({pan}*(1-{frac}))"
          y_expr = f"(ih-oh)*{y_pos}"
          filters.append(
              f"[{input_idx}:v]"
              f"scale={cfg.width * 2}:{cfg.height * 2}:force_original_aspect_ratio=increase,"
              f"zoompan=z='{z_expr}':x='{x_expr}':y='{y_expr}':"
              f"d={num_frames}:s={cfg.width}x{cfg.height}:fps={cfg.fps},"
              f"format=yuv420p[v{i}]")
      if len(self.images) > 1:
          cur = "[v0]"
          t = cfg.duration - cfg.crossfade
          for i in range(1, len(self.images)):
              trans = self.images[i].transition
              if trans not in TRANSITIONS:
                  trans = "fade"
              filters.append(
                  f"{cur}[v{i}]xfade=transition={trans}:"
                  f"duration={cfg.crossfade}:offset={t}[x{i}]")
              cur = f"[x{i}]"
              t += cfg.duration - cfg.crossfade
          final_label = "vout"
          filters.append(f"{cur}format=yuv420p[{final_label}]")
      else:
          final_label = "vout"
          filters.append(f"[v0]format=yuv420p[{final_label}]")
      if with_watermark and self.watermark and self.watermark.enabled:
          wm = self.watermark
          positions = {
              "top-left": f"x={wm.margin}:y={wm.margin}",
              "top-right": f"x=W-w-{wm.margin}:y={wm.margin}",
              "bottom-left": f"x={wm.margin}:y=H-h-{wm.margin}",
              "bottom-right": f"x=W-w-{wm.margin}:y=H-h-{wm.margin}",
              "center": "x=(W-w)/2:y=(H-h)/2"}
          pos = positions.get(wm.position, positions["bottom-right"])
          wm_input = len(self.images) + input_offset + 1  # After audio
          filters.append(
              f"[{wm_input}:v]scale=iw*{wm.scale}:-1,format=rgba,"
              f"colorchannelmixer=aa={wm.opacity}[wm]")
          filters.append(f"[{final_label}][wm]overlay={pos}[vfinal]")
          final_label = "vfinal"
      if with_title and self.title and self.title.enabled:
          pass
      filters[-1] = filters[-1].rsplit('[', 1)[0] + '[v]'
      return ";".join(filters)
  \<close>
\<close>

definition num_frames_of :: "VideoConfig \<Rightarrow> int" where
  "num_frames_of cfg = max 2 (py_round (duration cfg * real_of_int (fps cfg)))"

definition image_stage :: "VideoConfig \<Rightarrow> nat \<Rightarrow> ImageInfo \<Rightarrow> clause" where
  "image_stage cfg input_offset img =
     (let num_frames = num_frames_of cfg;
          zoom = zoom_intensity cfg;
          pan = pan_intensity cfg;
          i = index img;
          z_expr = (if zoom_in img then ZoomIn zoom (num_frames - 1)
                    else ZoomOut (1 + zoom) zoom (num_frames - 1));
          x_expr = (if pan_left_to_right img then PanLeftToRight pan (num_frames - 1)
                    else PanRightToLeft pan (num_frames - 1))
      in Stage (i + input_offset) (width cfg * 2) (height cfg * 2) z_expr x_expr
           (vertical_position cfg) num_frames (width cfg) (height cfg) (fps cfg) (V i))"

text \<open>
  The cross-fade loop from index \<open>i\<close> on, over the images from \<^verbatim>\<open>self.images[i]\<close> on,
  with the current label \<open>cur\<close> and the running offset \<open>t\<close>: the clauses it appends
  and the label it ends with. \<open>checked_transition\<close> is the transition of an image, or
  \<^verbatim>\<open>fade\<close> when it is not a key of \<^verbatim>\<open>TRANSITIONS\<close>.
\<close>

definition checked_transition :: "ImageInfo \<Rightarrow> string" where
  "checked_transition img =
     (if img_transition img \<in> set transition_list then img_transition img else ''fade'')"

fun xfade_loop :: "VideoConfig \<Rightarrow> nat \<Rightarrow> ImageInfo list \<Rightarrow> label \<Rightarrow> real \<Rightarrow> clause list \<times> label" where
  "xfade_loop cfg i [] cur t = ([], cur)"
| "xfade_loop cfg i (img # rest) cur t =
     (case xfade_loop cfg (Suc i) rest (X i) (t + (duration cfg - crossfade cfg)) of
        (later, final) \<Rightarrow>
          (XFade cur (V i) (checked_transition img) (crossfade cfg) t (X i) # later, final))"

definition overlay_position :: "WatermarkConfig \<Rightarrow> overlay_pos" where
  "overlay_position wm =
     (if wm_position wm = ''top-left'' then TopLeft (wm_margin wm)
      else if wm_position wm = ''top-right'' then TopRight (wm_margin wm)
      else if wm_position wm = ''bottom-left'' then BottomLeft (wm_margin wm)
      else if wm_position wm = ''bottom-right'' then BottomRight (wm_margin wm)
      else if wm_position wm = ''center'' then Center
      else BottomRight (wm_margin wm))"

definition watermark_active :: "WatermarkConfig option \<Rightarrow> bool" where
  "watermark_active w = (case w of None \<Rightarrow> False | Some wm \<Rightarrow> wm_enabled wm)"

definition build_filter_complex :: "bool \<Rightarrow> bool \<Rightarrow> SlideshowGenerator \<Rightarrow> clause list" where
  "build_filter_complex with_watermark with_title self =
     (let cfg = config self;
          input_offset = (if with_title \<and> title_active (title self) then 1 else 0);
          stages = map (image_stage cfg input_offset) (images self);
          chain =
            (if 1 < length (images self) then
               (case xfade_loop cfg 1 (tl (images self)) (V 0)
                       (duration cfg - crossfade cfg) of
                  (xs, cur) \<Rightarrow> xs @ [Format cur Vout])
             else [Format (V 0) Vout]);
          marked =
            (if with_watermark \<and> watermark_active (watermark self) then
               (let wm = the (watermark self);
                    wm_input = length (images self) + input_offset + 1
                in [WatermarkScale wm_input (wm_scale wm) (wm_opacity wm) Wm,
                    Overlay Vout Wm (overlay_position wm) Vfinal])
             else [])
      in relabel_last (stages @ chain @ marked))"




section \<open>generate and cancel\<close>

text \<open>
  What one call of \<^verbatim>\<open>generate\<close> meets outside the program:
  \<^item> the file system before the call;
  \<^item> the engine: what \<^verbatim>\<open>subprocess.Popen(cmd, ...)\<close> does for a command. It raises
    \<^verbatim>\<open>FileNotFoundError\<close> (no ffmpeg), raises another exception, or starts a process.
    A started process is the list of what the progress loop meets, in order, then its
    exit code, the text of its standard error, and the size of the output file after
    it has ended (\<open>None\<close> when there is no such file then).
  One event of the loop is: \<^verbatim>\<open>readline()\<close> returns a text (the empty text while
  the process has written nothing and still runs); \<^verbatim>\<open>cancel()\<close> is called, from
  another thread or from a callback, before the next poll of the flag; or the body of
  the loop raises an exception (a read error, a failing callback). When the events
  are used up, \<^verbatim>\<open>readline()\<close> returns the empty text and the process has ended.
\<close>

datatype pump_event = Read string | CancelCalled | Fault string

datatype engine_run =
    EngineNotFound
  | LaunchError string
  | Started "pump_event list" int string "nat option"

text \<open>
  The argument list handed to \<^verbatim>\<open>Popen\<close>, as the values the source puts into it:
  \<^verbatim>\<open>-loop 1 -t duration -i path\<close> per image, \<^verbatim>\<open>-i audio\<close>, \<^verbatim>\<open>-i watermark\<close> if any,
  \<^verbatim>\<open>-filter_complex\<close>, \<^verbatim>\<open>-map [v] -map n:a\<close>, \<^verbatim>\<open>-crf\<close>, \<^verbatim>\<open>-preset\<close>,
  \<^verbatim>\<open>-b:a\<close> and the output path.
\<close>

record ffmpeg_cmd =
  cmd_images :: "(real \<times> string) list"
  cmd_audio :: string
  cmd_watermark :: "string option"
  cmd_filter_complex :: "clause list"
  cmd_map_audio :: nat
  cmd_crf :: int
  cmd_preset :: string
  cmd_audio_bitrate :: string
  cmd_output :: string

record world =
  files :: filesystem
  engine :: "ffmpeg_cmd \<Rightarrow> engine_run"

text \<open>
  What the call does to the outside: the commands handed to \<^verbatim>\<open>Popen\<close>, the messages
  given to \<^verbatim>\<open>progress_callback\<close> (\<^verbatim>\<open>Found n images\<close>, \<^verbatim>\<open>Starting video generation
  (preview)\<close> or \<^verbatim>\<open>(full quality)\<close>), and the snapshots given to
  \<^verbatim>\<open>progress_bar_callback\<close>. A callback that is \<^verbatim>\<open>None\<close> receives nothing.
\<close>

datatype milestone = FoundImages nat | StartingGeneration bool

record run_log =
  launched :: "ffmpeg_cmd list"
  milestones :: "milestone list"
  snapshots :: "ProgressInfo list"

text \<open>
  The value \<^verbatim>\<open>generate\<close> returns, one constructor per \<^verbatim>\<open>return\<close> statement:
  \<^item> \<open>AudioNotFound p\<close>: \<^verbatim>\<open>(False, "Audio file not found: p")\<close>
  \<^item> \<open>UnsupportedAudio s\<close>: \<^verbatim>\<open>(False, "Unsupported audio format: s")\<close>
  \<^item> \<open>NoImages p\<close>: \<^verbatim>\<open>(False, "No images found in: p")\<close>
  \<^item> \<open>Cancelled\<close>: \<^verbatim>\<open>(False, "Generation cancelled")\<close>
  \<^item> \<open>FFmpegError e\<close>: \<^verbatim>\<open>(False, "FFmpeg error: e")\<close>
  \<^item> \<open>VideoCreated p n\<close>: \<^verbatim>\<open>(True, "Video created: p (.. MB)")\<close>, for a file of \<open>n\<close> bytes
  \<^item> \<open>OutputNotCreated\<close>: \<^verbatim>\<open>(False, "Output file was not created")\<close>
  \<^item> \<open>FFmpegNotFound\<close>: \<^verbatim>\<open>(False, "FFmpeg not found. Please install FFmpeg.")\<close>
  \<^item> \<open>ErrorRaised e\<close>: \<^verbatim>\<open>(False, "Error: e")\<close>
  \<^item> \<open>Uncaught e\<close>: no value; the exception \<open>e\<close> leaves \<^verbatim>\<open>generate\<close>.
\<close>

datatype outcome =
    AudioNotFound string
  | UnsupportedAudio string
  | NoImages string
  | Cancelled
  | FFmpegError string
  | VideoCreated string nat
  | OutputNotCreated
  | FFmpegNotFound
  | ErrorRaised py_error
  | Uncaught py_error

definition succeeded :: "outcome \<Rightarrow> bool" where
  "succeeded r = (case r of VideoCreated _ _ \<Rightarrow> True | _ \<Rightarrow> False)"

text \<open>
  \<^verbatim>\<open>
  def cancel(self):
      self._stop_flag = True
  \<close>
\<close>

definition cancel :: "SlideshowGenerator \<Rightarrow> SlideshowGenerator" where
  "cancel self = self\<lparr>stop_flag := True\<rparr>"

text \<open>
  The progress loop of \<^verbatim>\<open>generate\<close>:
  \<^verbatim>\<open>
  while True:
      if self._stop_flag:
          process.terminate()
          return False, "Generation cancelled"
      line = process.stdout.readline()
      if not line and process.poll() is not None:
          break
      if line and progress_bar_callback:
          info = self._parse_ffmpeg_progress(line, total_duration)
          if info:
              progress_bar_callback(info)
  \<close>
  It ends by the \<^verbatim>\<open>break\<close> (\<open>Exited\<close>), by the \<^verbatim>\<open>return\<close> (\<open>Stopped\<close>) or by an
  exception (\<open>Failed\<close>). The recursion is over the events of the process, a finite
  list: the model is of a process that ends.
\<close>

datatype pump_end = Exited | Stopped | Failed py_error

fun pump ::
  "bool \<Rightarrow> real \<Rightarrow> pump_event list \<Rightarrow> SlideshowGenerator \<Rightarrow> ProgressInfo list
     \<Rightarrow> pump_end \<times> SlideshowGenerator \<times> ProgressInfo list" where
  "pump bar_cb td [] self snaps =
     (if stop_flag self then (Stopped, self, snaps) else (Exited, self, snaps))"
| "pump bar_cb td (CancelCalled # es) self snaps = pump bar_cb td es (cancel self) snaps"
| "pump bar_cb td (Fault msg # es) self snaps =
     (if stop_flag self then (Stopped, self, snaps)
      else (Failed (OtherException msg), self, snaps))"
| "pump bar_cb td (Read line # es) self snaps =
     (if stop_flag self then (Stopped, self, snaps)
      else if line \<noteq> [] \<and> bar_cb then
        (case parse_ffmpeg_progress line td (fps (config self)) (progress_info self) of
           (Some e, info) \<Rightarrow> (Failed e, self\<lparr>progress_info := info\<rparr>, snaps)
         | (None, info) \<Rightarrow>
             pump bar_cb td es (self\<lparr>progress_info := info\<rparr>) (snaps @ [info]))
      else pump bar_cb td es self snaps)"

text \<open>
  The preview substitution and its reversal:
  \<^verbatim>\<open>
  original_config = (self.config.width, self.config.height,
                     self.config.fps, self.config.crf, self.config.preset)
  self.config.width = 640
  self.config.height = 360
  self.config.fps = 15
  self.config.crf = 35
  self.config.preset = "ultrafast"
  ...
  if original_config:
      (self.config.width, self.config.height,
       self.config.fps, self.config.crf, self.config.preset) = original_config
  \<close>
\<close>

definition preview_config :: "VideoConfig \<Rightarrow> VideoConfig" where
  "preview_config cfg =
     cfg\<lparr>width := 640, height := 360, fps := 15, crf := 35, preset := ''ultrafast''\<rparr>"

definition restore_config ::
  "(int \<times> int \<times> int \<times> int \<times> string) option \<Rightarrow> VideoConfig \<Rightarrow> VideoConfig" where
  "restore_config original_config cfg =
     (case original_config of
        None \<Rightarrow> cfg
      | Some (w, h, f, q, p) \<Rightarrow> cfg\<lparr>width := w, height := h, fps := f, crf := q, preset := p\<rparr>)"

definition build_cmd :: "string \<Rightarrow> string \<Rightarrow> bool \<Rightarrow> SlideshowGenerator \<Rightarrow> ffmpeg_cmd" where
  "build_cmd audio_path output_path has_watermark self =
     \<lparr>cmd_images = map (\<lambda>img. (duration (config self), path img)) (images self),
      cmd_audio = audio_path,
      cmd_watermark = (if has_watermark then Some (wm_image_path (the (watermark self))) else None),
      cmd_filter_complex = build_filter_complex has_watermark False self,
      cmd_map_audio = length (images self),
      cmd_crf = crf (config self),
      cmd_preset = preset (config self),
      cmd_audio_bitrate = audio_bitrate (config self),
      cmd_output = output_path\<rparr>"

text \<open>
  The part of \<^verbatim>\<open>generate\<close> inside \<^verbatim>\<open>try\<close>: the launch, the progress loop and what
  follows it.
  \<^verbatim>\<open>
  try:
      process = subprocess.Popen(cmd, ...)
      while True: ...
      _, stderr = process.communicate()
      if original_config:
          (...) = original_config
      if process.returncode != 0:
          return False, f"FFmpeg error: {stderr}"
      if os.path.exists(output_path):
          size_mb = os.path.getsize(output_path) / (1024 * 1024)
          return True, f"Video created: {output_path} ({size_mb:.1f} MB)"
      else:
          return False, "Output file was not created"
  except FileNotFoundError:
      return False, "FFmpeg not found. Please install FFmpeg."
  except Exception as e:
      return False, f"Error: {str(e)}"
  \<close>
\<close>

definition run_engine ::
  "world \<Rightarrow> ffmpeg_cmd \<Rightarrow> string \<Rightarrow> bool \<Rightarrow> real
     \<Rightarrow> (int \<times> int \<times> int \<times> int \<times> string) option \<Rightarrow> SlideshowGenerator
     \<Rightarrow> outcome \<times> SlideshowGenerator \<times> ProgressInfo list" where
  "run_engine env cmd output_path bar_cb total_duration original_config self =
     (case engine env cmd of
        EngineNotFound \<Rightarrow> (FFmpegNotFound, self, [])
      | LaunchError msg \<Rightarrow> (ErrorRaised (OtherException msg), self, [])
      | Started events returncode stderr out_size \<Rightarrow>
          (case pump bar_cb total_duration events self [] of
             (Stopped, self1, snaps) \<Rightarrow> (Cancelled, self1, snaps)
           | (Failed e, self1, snaps) \<Rightarrow> (ErrorRaised e, self1, snaps)
           | (Exited, self1, snaps) \<Rightarrow>
               (let self2 = self1\<lparr>config := restore_config original_config (config self1)\<rparr>
                in if returncode \<noteq> 0 then (FFmpegError stderr, self2, snaps)
                   else case out_size of
                          Some n \<Rightarrow> (VideoCreated output_path n, self2, snaps)
                        | None \<Rightarrow> (OutputNotCreated, self2, snaps))))"

text \<open>
  \<^verbatim>\<open>generate(self, image_path, audio_path, output_path, progress_callback,
  progress_bar_callback, preview)\<close>. \<open>text_cb\<close> and \<open>bar_cb\<close> say whether the two
  callbacks are given. The result is the value returned, the generator and the draws
  after the call, and what the call did to the outside.
  \<^verbatim>\<open>
  self._stop_flag = False
  audio = Path(audio_path)
  if not audio.exists():
      return False, f"Audio file not found: {audio_path}"
  if audio.suffix.lower() not in self.SUPPORTED_AUDIO:
      return False, f"Unsupported audio format: {audio.suffix}"
  image_files = self.find_images(image_path)
  if not image_files:
      return False, f"No images found in: {image_path}"
  self.prepare_images(image_files)
  if progress_callback:
      progress_callback(f"Found {len(self.images)} images")
  original_config = None
  if preview:
      ...
  has_watermark = (self.watermark and self.watermark.enabled and
                   os.path.exists(self.watermark.image_path))
  cmd = [...]
  if progress_callback:
      mode = "preview" if preview else "full quality"
      progress_callback(f"Starting video generation ({mode})...")
  total_duration = self.estimate_duration()
  try: ...
  \<close>
  \<open>generate_prepared\<close> is the function from the line after \<^verbatim>\<open>self.prepare_images\<close>
  on, \<open>generate\<close> is the whole.
\<close>

definition saved_config :: "VideoConfig \<Rightarrow> int \<times> int \<times> int \<times> int \<times> string" where
  "saved_config cfg = (width cfg, height cfg, fps cfg, crf cfg, preset cfg)"

definition has_watermark_file :: "world \<Rightarrow> SlideshowGenerator \<Rightarrow> bool" where
  "has_watermark_file env self =
     (case watermark self of
        None \<Rightarrow> False
      | Some wm \<Rightarrow> wm_enabled wm \<and> path_exists (files env) (wm_image_path wm))"

definition substitute_preview :: "bool \<Rightarrow> SlideshowGenerator \<Rightarrow> SlideshowGenerator" where
  "substitute_preview preview self1 =
     (if preview then self1\<lparr>config := preview_config (config self1)\<rparr> else self1)"

definition generate_prepared ::
  "world \<Rightarrow> string \<Rightarrow> string \<Rightarrow> bool \<Rightarrow> bool \<Rightarrow> bool \<Rightarrow> SlideshowGenerator
     \<Rightarrow> outcome \<times> SlideshowGenerator \<times> run_log" where
  "generate_prepared env audio_path output_path text_cb bar_cb preview self1 =
     (let found = (if text_cb then [FoundImages (length (images self1))] else []);
          original_config = (if preview then Some (saved_config (config self1)) else None);
          self2 = substitute_preview preview self1;
          has_watermark = has_watermark_file env self2;
          cmd = build_cmd audio_path output_path has_watermark self2;
          starting = (if text_cb then [StartingGeneration preview] else []);
          total_duration = estimate_duration self2
      in case run_engine env cmd output_path bar_cb total_duration original_config self2 of
           (result, self3, snaps) \<Rightarrow>
             (result, self3,
              \<lparr>launched = [cmd], milestones = found @ starting, snapshots = snaps\<rparr>))"

definition generate ::
  "world \<Rightarrow> string \<Rightarrow> string \<Rightarrow> string \<Rightarrow> bool \<Rightarrow> bool \<Rightarrow> bool \<Rightarrow> rng
     \<Rightarrow> SlideshowGenerator \<Rightarrow> outcome \<times> SlideshowGenerator \<times> rng \<times> run_log" where
  "generate env image_path audio_path output_path text_cb bar_cb preview draws self0 =
     (let self = self0\<lparr>stop_flag := False\<rparr>;
          quiet = \<lparr>launched = [], milestones = [], snapshots = []\<rparr>
      in if \<not> path_exists (files env) audio_path then
           (AudioNotFound audio_path, self, draws, quiet)
         else if lower (path_suffix audio_path) \<notin> set SUPPORTED_AUDIO then
           (UnsupportedAudio (path_suffix audio_path), self, draws, quiet)
         else if find_images (files env) image_path = [] then
           (NoImages image_path, self, draws, quiet)
         else
           case prepare_images (find_images (files env) image_path) draws self of
             Inl e \<Rightarrow> (Uncaught e, self, draws, quiet)
           | Inr (imgs, draws1, self1) \<Rightarrow>
               (case generate_prepared env audio_path output_path text_cb bar_cb preview self1 of
                  (result, self3, effects) \<Rightarrow> (result, self3, draws1, effects)))"

text \<open>
  \<^verbatim>\<open>generate_preview\<close> calls \<^verbatim>\<open>generate\<close> with \<^verbatim>\<open>preview=True\<close>.
\<close>

definition generate_preview ::
  "world \<Rightarrow> string \<Rightarrow> string \<Rightarrow> string \<Rightarrow> bool \<Rightarrow> bool \<Rightarrow> rng
     \<Rightarrow> SlideshowGenerator \<Rightarrow> outcome \<times> SlideshowGenerator \<times> rng \<times> run_log" where
  "generate_preview env image_path audio_path output_path text_cb bar_cb draws self =
     generate env image_path audio_path output_path text_cb bar_cb True draws self"

text \<open>
  The failure classes of the specification (its section 7), one per message of
  \<^verbatim>\<open>generate\<close>: the source returns a pair of a flag and a message and has no classes
  of its own. A success, a caught exception and an escaping exception have no class.
\<close>

datatype failure_class =
    InputNotFound
  | NoImagesFound
  | UnsupportedFormat
  | EngineMissing
  | EngineExecutionError
  | OutputMissing
  | CancelledRun

fun classify :: "outcome \<Rightarrow> failure_class option" where
  "classify (AudioNotFound p) = Some InputNotFound"
| "classify (UnsupportedAudio s) = Some UnsupportedFormat"
| "classify (NoImages p) = Some NoImagesFound"
| "classify Cancelled = Some CancelledRun"
| "classify (FFmpegError e) = Some EngineExecutionError"
| "classify OutputNotCreated = Some OutputMissing"
| "classify FFmpegNotFound = Some EngineMissing"
| "classify (VideoCreated p n) = None"
| "classify (ErrorRaised e) = None"
| "classify (Uncaught e) = None"

section \<open>Concrete inputs\<close>

text \<open>A generator holding \<open>n\<close> prepared images, for concrete evaluation.\<close>

definition sample_image :: "nat \<Rightarrow> ImageInfo" where
  "sample_image i =
     \<lparr>path = ''img'', index = i, zoom_in = (i mod 2 = 0),
      pan_left_to_right = (i mod 2 = 0), img_transition = ''fade''\<rparr>"

definition sample_generator :: "real \<Rightarrow> real \<Rightarrow> nat \<Rightarrow> SlideshowGenerator" where
  "sample_generator d c n =
     (init (default_video\<lparr>duration := d, crossfade := c\<rparr>) None None)
       \<lparr>images := map sample_image [0..<n]\<rparr>"





text \<open>A file system: a directory of pictures, an audio file and a text file.\<close>

definition album_fs :: filesystem where
  "album_fs =
     [''pics'' \<mapsto> Dir [''b.png'', ''a.Jpg'', ''c.JPG'', ''notes.txt'', ''a.png''],
      ''pics/a.Jpg'' \<mapsto> File 2048,
      ''pics/a.png'' \<mapsto> File 2048,
      ''pics/b.png'' \<mapsto> File 2048,
      ''pics/c.JPG'' \<mapsto> File 2048,
      ''pics/notes.txt'' \<mapsto> File 12,
      ''song.mp3'' \<mapsto> File 4096,
      ''song.txt'' \<mapsto> File 4096]"

text \<open>Three image paths.\<close>

definition three_paths :: "string list" where
  "three_paths = [''a.png'', ''b.png'', ''c.png'']"

text \<open>
  Four engines over that file system: one that prints a line and ends with an output
  file, one that is cancelled after its first line, one whose pipe breaks after its
  first line, and a missing ffmpeg.
\<close>

definition done_world :: world where
  "done_world =
     \<lparr>files = album_fs,
      engine = (\<lambda>cmd. Started [Read ''frame=10''] 0 [] (Some 1000))\<rparr>"

definition cancel_world :: world where
  "cancel_world =
     \<lparr>files = album_fs,
      engine = (\<lambda>cmd. Started [Read ''frame=10'', CancelCalled, Read ''frame=20''] 0 []
                         (Some 1000))\<rparr>"

definition fault_world :: world where
  "fault_world =
     \<lparr>files = album_fs,
      engine = (\<lambda>cmd. Started [Read ''frame=10'', Fault ''broken pipe''] 1 [] None)\<rparr>"

definition no_ffmpeg_world :: world where
  "no_ffmpeg_world = \<lparr>files = album_fs, engine = (\<lambda>cmd. EngineNotFound)\<rparr>"

definition fresh_generator :: SlideshowGenerator where
  "fresh_generator = init default_video None None"

section \<open>Properties of estimate_duration\<close>

lemma estimate_duration_nonempty:
  "images self \<noteq> [] \<Longrightarrow>
   estimate_duration self =
     max 0 (duration (config self) * real (length (images self))
            - crossfade (config self) * (real (length (images self)) - 1)
            + (if title_active (title self) then title_duration (the (title self)) else 0))"
  by (simp add: estimate_duration_def Let_def)

lemma sample_generator_images:
  "images (sample_generator d c n) = map sample_image [0..<n]"
  by (simp add: sample_generator_def)

lemma sample_generator_config:
  "duration (config (sample_generator d c n)) = d"
  "crossfade (config (sample_generator d c n)) = c"
  "title (sample_generator d c n) = None"
  by (simp_all add: sample_generator_def init_def)

text \<open>
  Claim C5, as amended. For a prepared image list of length \<open>n \<ge> 1\<close>,
  \<open>estimate_duration\<close> returns \<open>max 0 (n * duration - (n - 1) * crossfade + t)\<close>, where
  \<open>t\<close> is the title duration when a title is attached and enabled and \<open>0\<close> otherwise;
  so it returns the formula itself whenever the formula is not negative. It returns
  \<open>0\<close> for the empty list. With duration 10, crossfade 2 and no title, one image gives
  10 and five images give 42.
\<close>

theorem estimate_duration_formula:
  "(images self \<noteq> [] \<longrightarrow>
      estimate_duration self =
        max 0 (real (length (images self)) * duration (config self)
               - (real (length (images self)) - 1) * crossfade (config self)
               + (if title_active (title self) then title_duration (the (title self)) else 0)))
   \<and> (images self \<noteq> [] \<longrightarrow>
      0 \<le> real (length (images self)) * duration (config self)
               - (real (length (images self)) - 1) * crossfade (config self)
               + (if title_active (title self) then title_duration (the (title self)) else 0) \<longrightarrow>
      estimate_duration self =
        real (length (images self)) * duration (config self)
          - (real (length (images self)) - 1) * crossfade (config self)
          + (if title_active (title self) then title_duration (the (title self)) else 0))
   \<and> (images self = [] \<longrightarrow> estimate_duration self = 0)
   \<and> estimate_duration (sample_generator 10 2 1) = 10
   \<and> estimate_duration (sample_generator 10 2 5) = 42"
proof -
  have a: "images self \<noteq> [] \<Longrightarrow>
      estimate_duration self =
        max 0 (real (length (images self)) * duration (config self)
               - (real (length (images self)) - 1) * crossfade (config self)
               + (if title_active (title self) then title_duration (the (title self)) else 0))"
    by (simp add: estimate_duration_nonempty mult.commute)
  have b: "images self = [] \<Longrightarrow> estimate_duration self = 0"
    by (simp add: estimate_duration_def)
  have c: "estimate_duration (sample_generator 10 2 1) = 10"
    by (simp add: estimate_duration_nonempty sample_generator_images
        sample_generator_config title_active_def)
  have d: "estimate_duration (sample_generator 10 2 5) = 42"
    by (simp add: estimate_duration_nonempty sample_generator_images
        sample_generator_config title_active_def)
  from a b c d show ?thesis by simp
qed

theorem estimate_duration_formula_witness:
  "images (sample_generator 10 2 5) \<noteq> []
   \<and> estimate_duration (sample_generator 10 2 5)
       = real (length (images (sample_generator 10 2 5))) * 10 - (real (length (images (sample_generator 10 2 5))) - 1) * 2
   \<and> estimate_duration (sample_generator 10 2 5) = 42"
  using estimate_duration_formula [of "sample_generator 10 2 5"]
  by (simp add: sample_generator_images sample_generator_config title_active_def)

text \<open>
  Claim C5 as stated fails: with duration 1, crossfade 10 and three images (no title)
  the formula \<open>n * duration - (n - 1) * crossfade\<close> is \<open>-17\<close>, and
  \<open>estimate_duration\<close> returns \<open>0\<close>.
\<close>

theorem estimate_duration_formula_counterexample:
  "length (images (sample_generator 1 10 3)) = 3
   \<and> title (sample_generator 1 10 3) = None
   \<and> estimate_duration (sample_generator 1 10 3) = 0
   \<and> 3 * duration (config (sample_generator 1 10 3))
        - (3 - 1) * crossfade (config (sample_generator 1 10 3)) = -17
   \<and> estimate_duration (sample_generator 1 10 3)
        \<noteq> 3 * duration (config (sample_generator 1 10 3))
            - (3 - 1) * crossfade (config (sample_generator 1 10 3))"
  by (simp add: estimate_duration_nonempty sample_generator_images
      sample_generator_config title_active_def)

text \<open>
  Claim C9. \<open>estimate_duration\<close> never returns a negative value: where the formula
  \<open>n * duration - (n - 1) * crossfade\<close> (plus the title duration) is negative, the
  result is \<open>0\<close>.
\<close>

theorem estimate_duration_nonneg:
  "0 \<le> estimate_duration self
   \<and> (images self \<noteq> [] \<longrightarrow>
        duration (config self) * real (length (images self))
          - crossfade (config self) * (real (length (images self)) - 1)
          + (if title_active (title self) then title_duration (the (title self)) else 0) < 0 \<longrightarrow>
        estimate_duration self = 0)"
  by (simp add: estimate_duration_def Let_def)

theorem estimate_duration_nonneg_witness:
  "0 \<le> estimate_duration (sample_generator 1 10 3)
   \<and> images (sample_generator 1 10 3) \<noteq> []
   \<and> duration (config (sample_generator 1 10 3)) * real (length (images (sample_generator 1 10 3)))
        - crossfade (config (sample_generator 1 10 3)) * (real (length (images (sample_generator 1 10 3))) - 1) < 0
   \<and> estimate_duration (sample_generator 1 10 3) = 0"
  using estimate_duration_nonneg [of "sample_generator 1 10 3"]
  by (simp add: sample_generator_images sample_generator_config title_active_def)

section \<open>Properties of find_images\<close>

lemmas find_images_eval = find_images_def is_file_def is_dir_def listdir_def glob_star_def
  join_path_def ends_with_def SUPPORTED_FORMATS_def upper_def upper_char_def lower_def
  lower_char_def path_suffix_def path_name_def Let_def char_of_def bit_Suc_0_iff

text \<open>
  Claim C8 at a directory that holds \<^verbatim>\<open>a.Jpg\<close>: the directory branch looks for names
  that end with an extension of \<^verbatim>\<open>SUPPORTED_FORMATS\<close> in lower case or in upper case,
  so it leaves out \<^verbatim>\<open>pics/a.Jpg\<close>, a file the single-file branch accepts (its suffix in
  lower case is \<^verbatim>\<open>.jpg\<close>).
\<close>

theorem find_images_mixed_case:
  "find_images album_fs ''pics'' = [''pics/a.png'', ''pics/b.png'', ''pics/c.JPG'']
   \<and> ''a.Jpg'' \<in> set (listdir album_fs ''pics'')
   \<and> lower (path_suffix ''pics/a.Jpg'') \<in> set SUPPORTED_FORMATS
   \<and> ''pics/a.Jpg'' \<notin> set (find_images album_fs ''pics'')
   \<and> find_images album_fs ''pics/a.Jpg'' = [''pics/a.Jpg'']"
  by (simp add: find_images_eval album_fs_def)

lemma find_images_sorted_distinct:
  "sorted (find_images fsys p) \<and> distinct (find_images fsys p)"
  by (simp add: find_images_def Let_def)

lemma find_images_file:
  "is_file fsys p \<Longrightarrow>
     find_images fsys p = (if lower (path_suffix p) \<in> set SUPPORTED_FORMATS then [p] else [])"
  by (simp add: find_images_def)

lemma find_images_missing:
  "\<not> path_exists fsys p \<Longrightarrow> find_images fsys p = []"
  by (simp add: find_images_def path_exists_def is_file_def is_dir_def)

section \<open>Properties of _parse_ffmpeg_progress\<close>

























section \<open>Properties of prepare_images\<close>



lemma prepare_loop_length:
  "length (fst (prepare_loop cfg i ps draws)) = length ps"
  by (induction ps arbitrary: i draws) (simp_all add: case_prod_beta)

lemma prepare_loop_nth:
  "k < length ps \<Longrightarrow>
     path (fst (prepare_loop cfg i ps draws) ! k) = ps ! k
     \<and> index (fst (prepare_loop cfg i ps draws) ! k) = i + k"
proof (induction ps arbitrary: i draws k)
  case Nil
  then show ?case by simp
next
  case (Cons p ps)
  show ?case
  proof (cases k)
    case 0
    then show ?thesis by (simp add: case_prod_beta)
  next
    case (Suc j)
    with Cons.prems have "j < length ps" by simp
    from Cons.IH [OF this] Suc show ?thesis by (simp add: case_prod_beta)
  qed
qed

lemma zoom_of_alternate:
  "zoom_direction cfg = ''alternate'' \<Longrightarrow> zoom_of cfg i draws = (even i, draws)"
  by (simp add: zoom_of_def even_iff_mod_2_eq_zero)

lemma pan_of_alternate:
  "pan_direction cfg = ''alternate'' \<Longrightarrow> pan_of cfg i draws = (even i, draws)"
  by (simp add: pan_of_def even_iff_mod_2_eq_zero)

lemma prepare_loop_alternate:
  assumes "zoom_direction cfg = ''alternate''" "pan_direction cfg = ''alternate''"
  shows "\<forall>img \<in> set (fst (prepare_loop cfg i ps draws)).
           zoom_in img = even (index img) \<and> pan_left_to_right img = even (index img)"
  using assms
  by (induction ps arbitrary: i draws)
     (simp_all add: zoom_of_alternate pan_of_alternate case_prod_beta)


lemma shuffle_loop_length: "length (fst (shuffle_loop k xs draws)) = length xs"
  by (induction k arbitrary: xs draws) (simp_all add: case_prod_beta)

lemma random_shuffle_length: "length (fst (random_shuffle xs draws)) = length xs"
  by (simp add: random_shuffle_def shuffle_loop_length)

lemma ordered_paths_length:
  "length (fst (ordered_paths image_paths draws self)) = length image_paths"
  by (simp add: ordered_paths_def random_shuffle_length)

lemma prepare_images_result:
  "image_paths \<noteq> [] \<Longrightarrow>
     prepare_images image_paths draws self =
       Inr (fst (prepare_loop (config self) 0 (fst (ordered_paths image_paths draws self))
                   (snd (ordered_paths image_paths draws self))),
            snd (prepare_loop (config self) 0 (fst (ordered_paths image_paths draws self))
                   (snd (ordered_paths image_paths draws self))),
            self\<lparr>images :=
              fst (prepare_loop (config self) 0 (fst (ordered_paths image_paths draws self))
                     (snd (ordered_paths image_paths draws self)))\<rparr>)"
  by (simp add: prepare_images_def case_prod_beta)

text \<open>
  Claim C4. Under the zoom policy \<^verbatim>\<open>alternate\<close> and the pan policy \<^verbatim>\<open>alternate\<close>, for
  every non-empty list of paths \<^verbatim>\<open>prepare_images\<close> returns one image per path, the
  image at position \<open>k\<close> has index \<open>k\<close>, and its \<open>zoom_in\<close> and \<open>pan_left_to_right\<close> are
  true exactly when \<open>k\<close> is even, whatever the ordering (shuffle, reverse or none) and
  the draws; so the images of index 0 and 2 get the same assignment whenever the list
  has both.
\<close>

theorem prepare_images_alternate:
  assumes "zoom_direction (config self) = ''alternate''"
    and "pan_direction (config self) = ''alternate''"
    and "image_paths \<noteq> []"
  shows "\<exists>imgs draws' self'.
           prepare_images image_paths draws self = Inr (imgs, draws', self')
           \<and> images self' = imgs
           \<and> length imgs = length image_paths
           \<and> (\<forall>k < length imgs.
                 index (imgs ! k) = k
                 \<and> zoom_in (imgs ! k) = even k
                 \<and> pan_left_to_right (imgs ! k) = even k)
           \<and> (2 < length imgs \<longrightarrow>
                 zoom_in (imgs ! 0) = zoom_in (imgs ! 2)
                 \<and> pan_left_to_right (imgs ! 0) = pan_left_to_right (imgs ! 2))"
proof -
  let ?ord = "fst (ordered_paths image_paths draws self)"
  let ?d1 = "snd (ordered_paths image_paths draws self)"
  let ?imgs = "fst (prepare_loop (config self) 0 ?ord ?d1)"
  have len: "length ?imgs = length image_paths"
    by (simp add: prepare_loop_length ordered_paths_length)
  have each: "index (?imgs ! k) = k \<and> zoom_in (?imgs ! k) = even k
                \<and> pan_left_to_right (?imgs ! k) = even k" if "k < length ?imgs" for k
  proof -
    from that have k: "k < length ?ord" by (simp add: prepare_loop_length)
    from prepare_loop_nth [OF k, of "config self" 0 ?d1]
    have i: "index (?imgs ! k) = k" by simp
    from that have "?imgs ! k \<in> set ?imgs" by simp
    with prepare_loop_alternate [OF assms(1,2), of 0 ?ord ?d1]
    have "zoom_in (?imgs ! k) = even (index (?imgs ! k))
          \<and> pan_left_to_right (?imgs ! k) = even (index (?imgs ! k))"
      by blast
    with i show ?thesis by simp
  qed
  have two: "zoom_in (?imgs ! 0) = zoom_in (?imgs ! 2)
               \<and> pan_left_to_right (?imgs ! 0) = pan_left_to_right (?imgs ! 2)"
    if "2 < length ?imgs"
  proof -
    from that have "0 < length ?imgs" by arith
    from each [OF this] each [OF that] show ?thesis by simp
  qed
  from prepare_images_result [OF assms(3), of draws self] len each two
  show ?thesis by auto
qed

theorem prepare_images_alternate_witness:
  "zoom_direction (config (init default_video None None)) = ''alternate''
   \<and> pan_direction (config (init default_video None None)) = ''alternate''
   \<and> three_paths \<noteq> []
   \<and> (\<exists>imgs draws' self'.
         prepare_images three_paths [] (init default_video None None) = Inr (imgs, draws', self')
         \<and> images self' = imgs
         \<and> length imgs = 3
         \<and> map index imgs = [0, 1, 2]
         \<and> map zoom_in imgs = [True, False, True]
         \<and> map pan_left_to_right imgs = [True, False, True])"
proof -
  let ?g = "init default_video None None"
  have a: "zoom_direction (config ?g) = ''alternate''"
    and b: "pan_direction (config ?g) = ''alternate''"
    by (simp_all add: init_def default_video_def)
  have c: "three_paths \<noteq> []" by (simp add: three_paths_def)
  from prepare_images_alternate [OF a b c, of "[]"]
  obtain imgs draws' self' where r: "prepare_images three_paths [] ?g = Inr (imgs, draws', self')"
    and i: "images self' = imgs" and l: "length imgs = length three_paths"
    and e: "\<forall>k < length imgs. index (imgs ! k) = k \<and> zoom_in (imgs ! k) = even k
               \<and> pan_left_to_right (imgs ! k) = even k"
    by blast
  from l have l3: "length imgs = 3" by (simp add: three_paths_def)
  then obtain x y z where xyz: "imgs = [x, y, z]"
    by (auto simp: length_Suc_conv eval_nat_numeral)
  from e have "index (imgs ! 0) = 0 \<and> zoom_in (imgs ! 0) \<and> pan_left_to_right (imgs ! 0)"
    and "index (imgs ! 1) = 1 \<and> \<not> zoom_in (imgs ! 1) \<and> \<not> pan_left_to_right (imgs ! 1)"
    and "index (imgs ! 2) = 2 \<and> zoom_in (imgs ! 2) \<and> pan_left_to_right (imgs ! 2)"
    by (simp_all add: l3)
  then have m: "map index imgs = [0, 1, 2] \<and> map zoom_in imgs = [True, False, True]
      \<and> map pan_left_to_right imgs = [True, False, True]"
    by (simp add: xyz)
  have ex: "\<exists>imgs draws' self'.
         prepare_images three_paths [] ?g = Inr (imgs, draws', self')
         \<and> images self' = imgs
         \<and> length imgs = 3
         \<and> map index imgs = [0, 1, 2]
         \<and> map zoom_in imgs = [True, False, True]
         \<and> map pan_left_to_right imgs = [True, False, True]"
    by (intro exI [of _ imgs] exI [of _ draws'] exI [of _ self'] conjI)
       (use r i l3 m in simp_all)
  show ?thesis
    by (intro conjI) (rule a, rule b, rule c, rule ex)
qed

section \<open>Properties of _build_filter_complex\<close>












section \<open>Properties of generate and cancel\<close>

lemma pump_config:
  "config (fst (snd (pump bar_cb td es self snaps))) = config self"
  by (induction bar_cb td es self snaps rule: pump.induct)
     (auto simp: cancel_def split: prod.splits option.splits)

lemma pump_stopped:
  "fst (pump bar_cb td es self snaps) = Stopped \<Longrightarrow> stop_flag self \<or> CancelCalled \<in> set es"
  by (induction bar_cb td es self snaps rule: pump.induct)
     (auto simp: cancel_def split: prod.splits option.splits if_splits)

lemma restore_preview:
  "restore_config (Some (saved_config cfg)) (preview_config cfg) = cfg"
  by (simp add: restore_config_def saved_config_def preview_config_def)

lemma run_engine_config:
  "config (fst (snd (run_engine env cmd out bar_cb td orig self))) =
     (case fst (run_engine env cmd out bar_cb td orig self) of
        FFmpegError _ \<Rightarrow> restore_config orig (config self)
      | VideoCreated _ _ \<Rightarrow> restore_config orig (config self)
      | OutputNotCreated \<Rightarrow> restore_config orig (config self)
      | _ \<Rightarrow> config self)"
proof (cases "engine env cmd")
  case EngineNotFound
  then show ?thesis by (simp add: run_engine_def)
next
  case (LaunchError msg)
  then show ?thesis by (simp add: run_engine_def)
next
  case (Started es rc err sz)
  obtain e s1 sn where p: "pump bar_cb td es self [] = (e, s1, sn)"
    by (cases "pump bar_cb td es self []") auto
  from pump_config [of bar_cb td es self "[]"] p have c: "config s1 = config self" by simp
  from Started p c show ?thesis
    by (cases e) (auto simp: run_engine_def Let_def split: option.splits)
qed

lemma run_engine_cancelled:
  assumes "fst (run_engine env cmd out bar_cb td orig self) = Cancelled"
  shows "\<exists>es rc err sz. engine env cmd = Started es rc err sz
           \<and> (stop_flag self \<or> CancelCalled \<in> set es)"
proof (cases "engine env cmd")
  case EngineNotFound
  with assms show ?thesis by (simp add: run_engine_def)
next
  case (LaunchError msg)
  with assms show ?thesis by (simp add: run_engine_def)
next
  case (Started es rc err sz)
  obtain e s1 sn where p: "pump bar_cb td es self [] = (e, s1, sn)"
    by (cases "pump bar_cb td es self []") auto
  with assms Started have "e = Stopped"
    by (cases e) (auto simp: run_engine_def Let_def split: option.splits if_splits)
  with p pump_stopped [of bar_cb td es self "[]"] Started show ?thesis by simp
qed


lemma prepare_images_frame:
  assumes "image_paths \<noteq> []"
  shows "\<exists>imgs draws1. prepare_images image_paths draws self
            = Inr (imgs, draws1, self\<lparr>images := imgs\<rparr>)"
  using prepare_images_result [OF assms] by blast

lemma valid_call:
  assumes "path_exists (files env) ap"
    and "lower (path_suffix ap) \<in> set SUPPORTED_AUDIO"
    and "find_images (files env) ip \<noteq> []"
  shows "\<exists>imgs draws1.
           generate env ip ap out text_cb bar_cb preview draws self0 =
             (fst (generate_prepared env ap out text_cb bar_cb preview
                     (self0\<lparr>stop_flag := False, images := imgs\<rparr>)),
              fst (snd (generate_prepared env ap out text_cb bar_cb preview
                     (self0\<lparr>stop_flag := False, images := imgs\<rparr>))),
              draws1,
              snd (snd (generate_prepared env ap out text_cb bar_cb preview
                     (self0\<lparr>stop_flag := False, images := imgs\<rparr>))))"
proof -
  from prepare_images_frame [OF assms(3), of draws "self0\<lparr>stop_flag := False\<rparr>"]
  obtain imgs draws1 where
    "prepare_images (find_images (files env) ip) draws (self0\<lparr>stop_flag := False\<rparr>)
       = Inr (imgs, draws1, self0\<lparr>stop_flag := False, images := imgs\<rparr>)"
    by auto
  with assms show ?thesis
    by (intro exI [of _ imgs] exI [of _ draws1])
       (simp add: generate_def Let_def case_prod_beta)
qed

lemma generate_prepared_parts:
  "fst (generate_prepared env ap out text_cb bar_cb preview self1) =
     fst (run_engine env
            (build_cmd ap out (has_watermark_file env (substitute_preview preview self1))
               (substitute_preview preview self1))
            out bar_cb (estimate_duration (substitute_preview preview self1))
            (if preview then Some (saved_config (config self1)) else None)
            (substitute_preview preview self1))"
  "fst (snd (generate_prepared env ap out text_cb bar_cb preview self1)) =
     fst (snd (run_engine env
            (build_cmd ap out (has_watermark_file env (substitute_preview preview self1))
               (substitute_preview preview self1))
            out bar_cb (estimate_duration (substitute_preview preview self1))
            (if preview then Some (saved_config (config self1)) else None)
            (substitute_preview preview self1)))"
  "launched (snd (snd (generate_prepared env ap out text_cb bar_cb preview self1))) =
     [build_cmd ap out (has_watermark_file env (substitute_preview preview self1))
        (substitute_preview preview self1)]"
  by (simp_all add: generate_prepared_def substitute_preview_def Let_def case_prod_beta)


lemma substitute_preview_fields:
  "stop_flag (substitute_preview preview self1) = stop_flag self1"
  "config (substitute_preview preview self1)
     = (if preview then preview_config (config self1) else config self1)"
  by (simp_all add: substitute_preview_def)

lemma generate_prepared_cancelled:
  assumes "fst (generate_prepared env ap out text_cb bar_cb preview self1) = Cancelled"
    and "\<not> stop_flag self1"
  shows "\<exists>cmd es rc err sz.
           launched (snd (snd (generate_prepared env ap out text_cb bar_cb preview self1))) = [cmd]
           \<and> engine env cmd = Started es rc err sz \<and> CancelCalled \<in> set es"
proof -
  let ?s = "substitute_preview preview self1"
  let ?cmd = "build_cmd ap out (has_watermark_file env ?s) ?s"
  from assms(1) have "fst (run_engine env ?cmd out bar_cb (estimate_duration ?s)
          (if preview then Some (saved_config (config self1)) else None) ?s) = Cancelled"
    by (simp only: generate_prepared_parts(1))
  from run_engine_cancelled [OF this] assms(2)
  obtain es rc err sz where "engine env ?cmd = Started es rc err sz" "CancelCalled \<in> set es"
    by (auto simp: substitute_preview_fields)
  then show ?thesis
    by (intro exI [of _ ?cmd] exI [of _ es] exI [of _ rc] exI [of _ err] exI [of _ sz])
       (simp add: generate_prepared_parts(3))
qed

lemma generate_cancelled_where:
  assumes "fst (generate env ip ap out text_cb bar_cb preview draws self) = Cancelled"
  shows "\<exists>cmd es rc err sz.
           launched (snd (snd (snd (generate env ip ap out text_cb bar_cb preview draws self)))) = [cmd]
           \<and> engine env cmd = Started es rc err sz \<and> CancelCalled \<in> set es"
proof -
  from assms have v: "path_exists (files env) ap"
    "lower (path_suffix ap) \<in> set SUPPORTED_AUDIO" "find_images (files env) ip \<noteq> []"
    by (auto simp: generate_def Let_def split: if_splits)
  from valid_call [OF v, of out text_cb bar_cb preview draws self]
  obtain imgs draws1 where g:
    "generate env ip ap out text_cb bar_cb preview draws self =
       (fst (generate_prepared env ap out text_cb bar_cb preview
               (self\<lparr>stop_flag := False, images := imgs\<rparr>)),
        fst (snd (generate_prepared env ap out text_cb bar_cb preview
               (self\<lparr>stop_flag := False, images := imgs\<rparr>))),
        draws1,
        snd (snd (generate_prepared env ap out text_cb bar_cb preview
               (self\<lparr>stop_flag := False, images := imgs\<rparr>))))"
    by blast
  with assms have "fst (generate_prepared env ap out text_cb bar_cb preview
               (self\<lparr>stop_flag := False, images := imgs\<rparr>)) = Cancelled"
    by simp
  from generate_prepared_cancelled [OF this] show ?thesis
    by (simp add: g)
qed


lemma valid_call_state:
  assumes "path_exists (files env) ap"
    and "lower (path_suffix ap) \<in> set SUPPORTED_AUDIO"
    and "find_images (files env) ip \<noteq> []"
  shows "\<exists>imgs cmd td.
           fst (generate env ip ap out text_cb bar_cb preview draws self0) =
             fst (run_engine env cmd out bar_cb td
                    (if preview then Some (saved_config (config self0)) else None)
                    (substitute_preview preview (self0\<lparr>stop_flag := False, images := imgs\<rparr>)))
           \<and> fst (snd (generate env ip ap out text_cb bar_cb preview draws self0)) =
             fst (snd (run_engine env cmd out bar_cb td
                    (if preview then Some (saved_config (config self0)) else None)
                    (substitute_preview preview (self0\<lparr>stop_flag := False, images := imgs\<rparr>))))"
proof -
  from valid_call [OF assms, of out text_cb bar_cb preview draws self0]
  obtain imgs draws1 where g:
    "generate env ip ap out text_cb bar_cb preview draws self0 =
       (fst (generate_prepared env ap out text_cb bar_cb preview
               (self0\<lparr>stop_flag := False, images := imgs\<rparr>)),
        fst (snd (generate_prepared env ap out text_cb bar_cb preview
               (self0\<lparr>stop_flag := False, images := imgs\<rparr>))),
        draws1,
        snd (snd (generate_prepared env ap out text_cb bar_cb preview
               (self0\<lparr>stop_flag := False, images := imgs\<rparr>))))"
    by blast
  let ?s1 = "self0\<lparr>stop_flag := False, images := imgs\<rparr>"
  let ?s = "substitute_preview preview ?s1"
  show ?thesis
    by (intro exI [of _ imgs] exI [of _ "build_cmd ap out (has_watermark_file env ?s) ?s"]
          exI [of _ "estimate_duration ?s"])
       (simp add: g generate_prepared_parts)
qed

lemma sample_inputs_valid:
  "path_exists album_fs ''song.mp3''"
  "lower (path_suffix ''song.mp3'') \<in> set SUPPORTED_AUDIO"
  "find_images album_fs ''pics'' \<noteq> []"
  by (simp_all add: find_images_eval album_fs_def path_exists_def SUPPORTED_AUDIO_def)

lemma run_engine_cancel_world:
  "\<not> stop_flag s \<Longrightarrow>
     run_engine cancel_world cmd out False td orig s = (Cancelled, cancel s, [])"
  by (simp add: run_engine_def cancel_world_def cancel_def)

lemma run_engine_done_world:
  "\<not> stop_flag s \<Longrightarrow>
     run_engine done_world cmd out False td orig s
       = (VideoCreated out 1000, s\<lparr>config := restore_config orig (config s)\<rparr>, [])"
  by (simp add: run_engine_def done_world_def)

lemma run_engine_fault_world:
  "\<not> stop_flag s \<Longrightarrow>
     run_engine fault_world cmd out False td orig s
       = (ErrorRaised (OtherException ''broken pipe''), s, [])"
  by (simp add: run_engine_def fault_world_def)

lemma run_engine_no_ffmpeg_world:
  "run_engine no_ffmpeg_world cmd out bar_cb td orig s = (FFmpegNotFound, s, [])"
  by (simp add: run_engine_def no_ffmpeg_world_def)

lemma sample_worlds_files:
  "files cancel_world = album_fs" "files done_world = album_fs"
  "files no_ffmpeg_world = album_fs" "files fault_world = album_fs"
  by (simp_all add: cancel_world_def done_world_def no_ffmpeg_world_def fault_world_def)

text \<open>
  The configuration after a preview call that got past the validation: the one before
  the call when the run ends after the progress loop, the preview one otherwise.
\<close>

lemma preview_config_after:
  assumes "path_exists (files env) ap"
    and "lower (path_suffix ap) \<in> set SUPPORTED_AUDIO"
    and "find_images (files env) ip \<noteq> []"
  shows "config (fst (snd (generate env ip ap out text_cb bar_cb True draws self0))) =
           (case fst (generate env ip ap out text_cb bar_cb True draws self0) of
              FFmpegError _ \<Rightarrow> config self0
            | VideoCreated _ _ \<Rightarrow> config self0
            | OutputNotCreated \<Rightarrow> config self0
            | _ \<Rightarrow> preview_config (config self0))"
proof -
  from valid_call_state [OF assms, of out text_cb bar_cb True draws self0]
  obtain imgs cmd td where
    r: "fst (generate env ip ap out text_cb bar_cb True draws self0) =
          fst (run_engine env cmd out bar_cb td (Some (saved_config (config self0)))
                 (substitute_preview True (self0\<lparr>stop_flag := False, images := imgs\<rparr>)))"
    and s: "fst (snd (generate env ip ap out text_cb bar_cb True draws self0)) =
          fst (snd (run_engine env cmd out bar_cb td (Some (saved_config (config self0)))
                 (substitute_preview True (self0\<lparr>stop_flag := False, images := imgs\<rparr>))))"
    by auto
  have c: "config (substitute_preview True (self0\<lparr>stop_flag := False, images := imgs\<rparr>))
             = preview_config (config self0)"
    by (simp add: substitute_preview_def)
  show ?thesis
    unfolding r s run_engine_config c restore_preview ..
qed

text \<open>
  Claim C1 at four preview calls on a generator with the default configuration
  (1920x1080, 60 fps, crf 18, preset slow), each with valid inputs. When \<^verbatim>\<open>cancel()\<close> is
  called after the first line of the engine, \<^verbatim>\<open>generate\<close> returns
  \<^verbatim>\<open>Generation cancelled\<close> from inside the loop, before the lines that restore the
  configuration; when the loop raises an exception or ffmpeg is missing, it returns
  from an \<^verbatim>\<open>except\<close> branch, which does not restore either. The three calls leave
  width, height, fps, crf and preset at the preview values (640x360, 15 fps, crf 35,
  ultrafast). The call that runs to the end restores them.
\<close>

theorem generate_preview_not_restored:
  "config fresh_generator = default_video
   \<and> width default_video = 1920 \<and> height default_video = 1080 \<and> fps default_video = 60
   \<and> crf default_video = 18 \<and> preset default_video = ''slow''
   \<and> fst (generate cancel_world ''pics'' ''song.mp3'' ''out.mp4'' False False True []
            fresh_generator) = Cancelled
   \<and> config (fst (snd (generate cancel_world ''pics'' ''song.mp3'' ''out.mp4'' False False True []
                          fresh_generator)))
       = default_video\<lparr>width := 640, height := 360, fps := 15, crf := 35,
                        preset := ''ultrafast''\<rparr>
   \<and> fst (generate fault_world ''pics'' ''song.mp3'' ''out.mp4'' False False True []
            fresh_generator) = ErrorRaised (OtherException ''broken pipe'')
   \<and> config (fst (snd (generate fault_world ''pics'' ''song.mp3'' ''out.mp4'' False False True []
                          fresh_generator)))
       = default_video\<lparr>width := 640, height := 360, fps := 15, crf := 35,
                        preset := ''ultrafast''\<rparr>
   \<and> fst (generate no_ffmpeg_world ''pics'' ''song.mp3'' ''out.mp4'' False False True []
            fresh_generator) = FFmpegNotFound
   \<and> config (fst (snd (generate no_ffmpeg_world ''pics'' ''song.mp3'' ''out.mp4'' False False
                          True [] fresh_generator)))
       = default_video\<lparr>width := 640, height := 360, fps := 15, crf := 35,
                        preset := ''ultrafast''\<rparr>
   \<and> fst (generate done_world ''pics'' ''song.mp3'' ''out.mp4'' False False True []
            fresh_generator) = VideoCreated ''out.mp4'' 1000
   \<and> config (fst (snd (generate done_world ''pics'' ''song.mp3'' ''out.mp4'' False False True []
                          fresh_generator)))
       = default_video"
proof -
  have f: "config fresh_generator = default_video" "\<not> stop_flag fresh_generator"
    by (simp_all add: fresh_generator_def init_def)
  have d: "width default_video = 1920 \<and> height default_video = 1080 \<and> fps default_video = 60
   \<and> crf default_video = 18 \<and> preset default_video = ''slow''"
    by (simp add: default_video_def)
  from valid_call_state [of cancel_world "''song.mp3''" "''pics''" "''out.mp4''" False False
      True "[]" fresh_generator] sample_inputs_valid
  have c: "fst (generate cancel_world ''pics'' ''song.mp3'' ''out.mp4'' False False True []
            fresh_generator) = Cancelled
     \<and> config (fst (snd (generate cancel_world ''pics'' ''song.mp3'' ''out.mp4'' False False True []
                          fresh_generator)))
       = default_video\<lparr>width := 640, height := 360, fps := 15, crf := 35,
                        preset := ''ultrafast''\<rparr>"
    by (auto simp: sample_worlds_files run_engine_cancel_world substitute_preview_def f
        cancel_def preview_config_def)
  from valid_call_state [of fault_world "''song.mp3''" "''pics''" "''out.mp4''" False False
      True "[]" fresh_generator] sample_inputs_valid
  have x: "fst (generate fault_world ''pics'' ''song.mp3'' ''out.mp4'' False False True []
            fresh_generator) = ErrorRaised (OtherException ''broken pipe'')
     \<and> config (fst (snd (generate fault_world ''pics'' ''song.mp3'' ''out.mp4'' False False True []
                          fresh_generator)))
       = default_video\<lparr>width := 640, height := 360, fps := 15, crf := 35,
                        preset := ''ultrafast''\<rparr>"
    by (auto simp: sample_worlds_files run_engine_fault_world substitute_preview_def f
        preview_config_def)
  from valid_call_state [of no_ffmpeg_world "''song.mp3''" "''pics''" "''out.mp4''" False False
      True "[]" fresh_generator] sample_inputs_valid
  have n: "fst (generate no_ffmpeg_world ''pics'' ''song.mp3'' ''out.mp4'' False False True []
            fresh_generator) = FFmpegNotFound
     \<and> config (fst (snd (generate no_ffmpeg_world ''pics'' ''song.mp3'' ''out.mp4'' False False
                          True [] fresh_generator)))
       = default_video\<lparr>width := 640, height := 360, fps := 15, crf := 35,
                        preset := ''ultrafast''\<rparr>"
    by (auto simp: sample_worlds_files run_engine_no_ffmpeg_world substitute_preview_def f
        preview_config_def)
  from valid_call_state [of done_world "''song.mp3''" "''pics''" "''out.mp4''" False False
      True "[]" fresh_generator] sample_inputs_valid
  have k: "fst (generate done_world ''pics'' ''song.mp3'' ''out.mp4'' False False True []
            fresh_generator) = VideoCreated ''out.mp4'' 1000
   \<and> config (fst (snd (generate done_world ''pics'' ''song.mp3'' ''out.mp4'' False False True []
                          fresh_generator)))
       = default_video"
    by (auto simp: sample_worlds_files run_engine_done_world substitute_preview_def f
        restore_preview)
  from f(1) d c x n k show ?thesis by blast
qed


text \<open>
  Claim C10. A call of \<^verbatim>\<open>cancel()\<close> before \<^verbatim>\<open>generate\<close> changes nothing of the run:
  \<^verbatim>\<open>generate\<close> sets the stop flag to false first, so it returns the same value,
  generator, draws and effects as without that call. A run ends as cancelled only
  when the engine was started and \<^verbatim>\<open>cancel()\<close> was called during the progress loop,
  where the next poll of the flag sees it.
\<close>

theorem cancel_before_generate:
  "generate env ip ap out text_cb bar_cb preview draws (cancel self)
     = generate env ip ap out text_cb bar_cb preview draws self
   \<and> (fst (generate env ip ap out text_cb bar_cb preview draws (cancel self)) = Cancelled \<longrightarrow>
        (\<exists>cmd es rc err sz.
           launched (snd (snd (snd (generate env ip ap out text_cb bar_cb preview draws
                                     (cancel self))))) = [cmd]
           \<and> engine env cmd = Started es rc err sz \<and> CancelCalled \<in> set es))"
proof (intro conjI impI)
  show "generate env ip ap out text_cb bar_cb preview draws (cancel self)
     = generate env ip ap out text_cb bar_cb preview draws self"
    by (simp add: generate_def cancel_def)
next
  assume "fst (generate env ip ap out text_cb bar_cb preview draws (cancel self)) = Cancelled"
  then show "\<exists>cmd es rc err sz.
           launched (snd (snd (snd (generate env ip ap out text_cb bar_cb preview draws
                                     (cancel self))))) = [cmd]
           \<and> engine env cmd = Started es rc err sz \<and> CancelCalled \<in> set es"
    by (rule generate_cancelled_where)
qed

theorem cancel_before_generate_witness:
  "stop_flag (cancel fresh_generator)
   \<and> fst (generate done_world ''pics'' ''song.mp3'' ''out.mp4'' False False False []
            (cancel fresh_generator)) = VideoCreated ''out.mp4'' 1000
   \<and> generate done_world ''pics'' ''song.mp3'' ''out.mp4'' False False False []
        (cancel fresh_generator)
       = generate done_world ''pics'' ''song.mp3'' ''out.mp4'' False False False []
           fresh_generator
   \<and> fst (generate cancel_world ''pics'' ''song.mp3'' ''out.mp4'' False False False []
            (cancel fresh_generator)) = Cancelled
   \<and> (\<exists>cmd es rc err sz.
         launched (snd (snd (snd (generate cancel_world ''pics'' ''song.mp3'' ''out.mp4'' False
                                    False False [] (cancel fresh_generator))))) = [cmd]
         \<and> engine cancel_world cmd = Started es rc err sz \<and> CancelCalled \<in> set es)"
proof -
  have a: "stop_flag (cancel fresh_generator)" by (simp add: cancel_def)
  from valid_call_state [of done_world "''song.mp3''" "''pics''" "''out.mp4''" False False
      False "[]" "cancel fresh_generator"] sample_inputs_valid
  have b: "fst (generate done_world ''pics'' ''song.mp3'' ''out.mp4'' False False False []
            (cancel fresh_generator)) = VideoCreated ''out.mp4'' 1000"
    by (auto simp: sample_worlds_files run_engine_done_world substitute_preview_def)
  from valid_call_state [of cancel_world "''song.mp3''" "''pics''" "''out.mp4''" False False
      False "[]" "cancel fresh_generator"] sample_inputs_valid
  have c: "fst (generate cancel_world ''pics'' ''song.mp3'' ''out.mp4'' False False False []
            (cancel fresh_generator)) = Cancelled"
    by (auto simp: sample_worlds_files run_engine_cancel_world substitute_preview_def)
  note d = cancel_before_generate [of done_world "''pics''" "''song.mp3''" "''out.mp4''"
      False False False "[]" fresh_generator]
  note e = cancel_before_generate [of cancel_world "''pics''" "''song.mp3''" "''out.mp4''"
      False False False "[]" fresh_generator]
  from a b c d e show ?thesis by blast
qed

lemma invalid_call:
  "\<not> path_exists (files env) ap \<Longrightarrow>
     generate env ip ap out text_cb bar_cb preview draws self
       = (AudioNotFound ap, self\<lparr>stop_flag := False\<rparr>, draws,
          \<lparr>launched = [], milestones = [], snapshots = []\<rparr>)"
  "path_exists (files env) ap \<Longrightarrow> lower (path_suffix ap) \<notin> set SUPPORTED_AUDIO \<Longrightarrow>
     generate env ip ap out text_cb bar_cb preview draws self
       = (UnsupportedAudio (path_suffix ap), self\<lparr>stop_flag := False\<rparr>, draws,
          \<lparr>launched = [], milestones = [], snapshots = []\<rparr>)"
  "path_exists (files env) ap \<Longrightarrow> lower (path_suffix ap) \<in> set SUPPORTED_AUDIO \<Longrightarrow>
   find_images (files env) ip = [] \<Longrightarrow>
     generate env ip ap out text_cb bar_cb preview draws self
       = (NoImages ip, self\<lparr>stop_flag := False\<rparr>, draws,
          \<lparr>launched = [], milestones = [], snapshots = []\<rparr>)"
  by (simp_all add: generate_def Let_def)

text \<open>
  Claim C7, as amended. When the audio path does not exist, \<^verbatim>\<open>generate\<close> returns
  \<^verbatim>\<open>Audio file not found\<close> (class InputNotFound) and starts no process. When the audio
  file exists with an unsupported extension, it returns \<^verbatim>\<open>Unsupported audio format\<close>
  (UnsupportedFormat) and starts no process. When the audio file is valid and the image
  source does not exist, or exists and yields no usable image, it returns
  \<^verbatim>\<open>No images found in\<close> (NoImagesFound) and starts no process.
\<close>

theorem generate_validation:
  "(\<not> path_exists (files env) ap \<longrightarrow>
      fst (generate env ip ap out text_cb bar_cb preview draws self) = AudioNotFound ap
      \<and> classify (fst (generate env ip ap out text_cb bar_cb preview draws self))
          = Some InputNotFound
      \<and> launched (snd (snd (snd (generate env ip ap out text_cb bar_cb preview draws self)))) = [])
   \<and> (path_exists (files env) ap \<and> lower (path_suffix ap) \<notin> set SUPPORTED_AUDIO \<longrightarrow>
      fst (generate env ip ap out text_cb bar_cb preview draws self)
          = UnsupportedAudio (path_suffix ap)
      \<and> classify (fst (generate env ip ap out text_cb bar_cb preview draws self))
          = Some UnsupportedFormat
      \<and> launched (snd (snd (snd (generate env ip ap out text_cb bar_cb preview draws self)))) = [])
   \<and> (path_exists (files env) ap \<and> lower (path_suffix ap) \<in> set SUPPORTED_AUDIO
        \<and> (\<not> path_exists (files env) ip \<or> find_images (files env) ip = []) \<longrightarrow>
      fst (generate env ip ap out text_cb bar_cb preview draws self) = NoImages ip
      \<and> classify (fst (generate env ip ap out text_cb bar_cb preview draws self))
          = Some NoImagesFound
      \<and> launched (snd (snd (snd (generate env ip ap out text_cb bar_cb preview draws self)))) = [])"
proof (intro conjI impI)
  assume "\<not> path_exists (files env) ap"
  from invalid_call(1) [OF this, of ip out text_cb bar_cb preview draws self]
  show "fst (generate env ip ap out text_cb bar_cb preview draws self) = AudioNotFound ap"
    and "classify (fst (generate env ip ap out text_cb bar_cb preview draws self))
          = Some InputNotFound"
    and "launched (snd (snd (snd (generate env ip ap out text_cb bar_cb preview draws self)))) = []"
    by simp_all
next
  assume "path_exists (files env) ap \<and> lower (path_suffix ap) \<notin> set SUPPORTED_AUDIO"
  then have a: "path_exists (files env) ap" and b: "lower (path_suffix ap) \<notin> set SUPPORTED_AUDIO"
    by simp_all
  from invalid_call(2) [OF a b, of ip out text_cb bar_cb preview draws self]
  show "fst (generate env ip ap out text_cb bar_cb preview draws self)
          = UnsupportedAudio (path_suffix ap)"
    and "classify (fst (generate env ip ap out text_cb bar_cb preview draws self))
          = Some UnsupportedFormat"
    and "launched (snd (snd (snd (generate env ip ap out text_cb bar_cb preview draws self)))) = []"
    by simp_all
next
  assume h: "path_exists (files env) ap \<and> lower (path_suffix ap) \<in> set SUPPORTED_AUDIO
        \<and> (\<not> path_exists (files env) ip \<or> find_images (files env) ip = [])"
  then have a: "path_exists (files env) ap" and b: "lower (path_suffix ap) \<in> set SUPPORTED_AUDIO"
    by simp_all
  from h have c: "find_images (files env) ip = []"
    using find_images_missing by blast
  from invalid_call(3) [OF a b c, of out text_cb bar_cb preview draws self]
  show "fst (generate env ip ap out text_cb bar_cb preview draws self) = NoImages ip"
    and "classify (fst (generate env ip ap out text_cb bar_cb preview draws self))
          = Some NoImagesFound"
    and "launched (snd (snd (snd (generate env ip ap out text_cb bar_cb preview draws self)))) = []"
    by simp_all
qed

lemma sample_inputs_invalid:
  "\<not> path_exists album_fs ''nowhere''"
  "\<not> path_exists album_fs ''nosong.mp3''"
  "path_exists album_fs ''song.txt''"
  "lower (path_suffix ''song.txt'') \<notin> set SUPPORTED_AUDIO"
  by (simp_all add: find_images_eval album_fs_def path_exists_def SUPPORTED_AUDIO_def)

theorem generate_validation_witness:
  "\<not> path_exists (files done_world) ''nosong.mp3''
   \<and> fst (generate done_world ''pics'' ''nosong.mp3'' ''out.mp4'' True True False []
            fresh_generator) = AudioNotFound ''nosong.mp3''
   \<and> launched (snd (snd (snd (generate done_world ''pics'' ''nosong.mp3'' ''out.mp4'' True True
                                 False [] fresh_generator)))) = []
   \<and> path_exists (files done_world) ''song.txt''
   \<and> lower (path_suffix ''song.txt'') \<notin> set SUPPORTED_AUDIO
   \<and> fst (generate done_world ''pics'' ''song.txt'' ''out.mp4'' True True False []
            fresh_generator) = UnsupportedAudio ''.txt''
   \<and> path_exists (files done_world) ''song.mp3''
   \<and> lower (path_suffix ''song.mp3'') \<in> set SUPPORTED_AUDIO
   \<and> \<not> path_exists (files done_world) ''nowhere''
   \<and> fst (generate done_world ''nowhere'' ''song.mp3'' ''out.mp4'' True True False []
            fresh_generator) = NoImages ''nowhere''
   \<and> launched (snd (snd (snd (generate done_world ''nowhere'' ''song.mp3'' ''out.mp4'' True True
                                 False [] fresh_generator)))) = []"
proof -
  note v = sample_inputs_valid sample_inputs_invalid sample_worlds_files
  have s: "path_suffix ''song.txt'' = ''.txt''" by (simp add: find_images_eval)
  from generate_validation [of done_world "''nosong.mp3''" "''pics''" "''out.mp4''" True True
      False "[]" fresh_generator] v
  have a: "fst (generate done_world ''pics'' ''nosong.mp3'' ''out.mp4'' True True False []
            fresh_generator) = AudioNotFound ''nosong.mp3''
     \<and> launched (snd (snd (snd (generate done_world ''pics'' ''nosong.mp3'' ''out.mp4'' True True
                                 False [] fresh_generator)))) = []"
    by simp
  from generate_validation [of done_world "''song.txt''" "''pics''" "''out.mp4''" True True
      False "[]" fresh_generator] v
  have b: "fst (generate done_world ''pics'' ''song.txt'' ''out.mp4'' True True False []
            fresh_generator) = UnsupportedAudio ''.txt''"
    by (simp add: s)
  from generate_validation [of done_world "''song.mp3''" "''nowhere''" "''out.mp4''" True True
      False "[]" fresh_generator] v
  have c: "fst (generate done_world ''nowhere'' ''song.mp3'' ''out.mp4'' True True False []
            fresh_generator) = NoImages ''nowhere''
     \<and> launched (snd (snd (snd (generate done_world ''nowhere'' ''song.mp3'' ''out.mp4'' True True
                                 False [] fresh_generator)))) = []"
    by simp
  from a b c v show ?thesis by simp
qed

text \<open>
  Claim C7 as stated fails for an image source that does not exist: \<^verbatim>\<open>generate\<close> does
  not test the image path, \<^verbatim>\<open>find_images\<close> returns the empty list for it, and the
  message is \<^verbatim>\<open>No images found in\<close>, the class NoImagesFound. And the audio file is
  tested first: with an unsupported audio file the class is UnsupportedFormat, whether
  the image source exists or not.
\<close>

theorem generate_validation_counterexample:
  "\<not> path_exists (files done_world) ''nowhere''
   \<and> fst (generate done_world ''nowhere'' ''song.mp3'' ''out.mp4'' True True False []
            fresh_generator) = NoImages ''nowhere''
   \<and> classify (fst (generate done_world ''nowhere'' ''song.mp3'' ''out.mp4'' True True False []
                      fresh_generator)) \<noteq> Some InputNotFound
   \<and> \<not> path_exists (files done_world) ''nowhere''
   \<and> path_exists (files done_world) ''song.txt''
   \<and> classify (fst (generate done_world ''nowhere'' ''song.txt'' ''out.mp4'' True True False []
                      fresh_generator)) = Some UnsupportedFormat"
proof -
  note v = sample_inputs_valid sample_inputs_invalid sample_worlds_files
  from invalid_call(3) [of done_world "''song.mp3''" "''nowhere''" "''out.mp4''" True True
      False "[]" fresh_generator] v find_images_missing [of album_fs "''nowhere''"]
  have a: "fst (generate done_world ''nowhere'' ''song.mp3'' ''out.mp4'' True True False []
            fresh_generator) = NoImages ''nowhere''"
    by simp
  from invalid_call(2) [of done_world "''song.txt''" "''nowhere''" "''out.mp4''" True True
      False "[]" fresh_generator] v
  have b: "fst (generate done_world ''nowhere'' ''song.txt'' ''out.mp4'' True True False []
            fresh_generator) = UnsupportedAudio (path_suffix ''song.txt'')"
    by simp
  from a b v show ?thesis by simp
qed

end
